theory Spec2Isabelle
  imports Main
begin

section \<open>Python values used by the program\<close>

text \<open>
  A Python \<open>str\<close> is represented by its UTF-8 encoding, a list of 8-bit characters, and
  \<open>bytes\<close> by the list of its bytes. Concatenation, comparison with an ASCII literal,
  \<open>startswith\<close>, the substring test \<open>in\<close>, \<open>split\<close> on a comma and a slice
  compared with an ASCII literal give the same answer on the encoding as on the code
  points, and these are the only string operations the program uses.
\<close>

datatype error =
    ValueError | NotImplementedError | TypeError | IndexError
  | UnicodeDecodeError | ConnectionError

datatype level = INFO | WARNING | ERROR

definition byte :: "char \<Rightarrow> nat" where
  "byte c = of_char c"

definition in_range :: "nat \<Rightarrow> nat \<Rightarrow> char \<Rightarrow> bool" where
  "in_range lo hi c = (lo \<le> byte c \<and> byte c \<le> hi)"

text \<open>The well-formed byte sequences of UTF-8, which the strict codec of Python accepts.\<close>

fun utf8_valid :: "string \<Rightarrow> bool" where
  "utf8_valid [] = True"
| "utf8_valid (a # bs) =
     (if byte a < 0x80 then utf8_valid bs
      else if in_range 0xC2 0xDF a then
        (case bs of
           b # r \<Rightarrow> in_range 0x80 0xBF b \<and> utf8_valid r
         | _ \<Rightarrow> False)
      else if in_range 0xE0 0xEF a then
        (case bs of
           b # c # r \<Rightarrow>
             in_range (if byte a = 0xE0 then 0xA0 else 0x80)
                      (if byte a = 0xED then 0x9F else 0xBF) b
             \<and> in_range 0x80 0xBF c \<and> utf8_valid r
         | _ \<Rightarrow> False)
      else if in_range 0xF0 0xF4 a then
        (case bs of
           b # c # d # r \<Rightarrow>
             in_range (if byte a = 0xF0 then 0x90 else 0x80)
                      (if byte a = 0xF4 then 0x8F else 0xBF) b
             \<and> in_range 0x80 0xBF c \<and> in_range 0x80 0xBF d \<and> utf8_valid r
         | _ \<Rightarrow> False)
      else False)"

text \<open>\<^verbatim>\<open>content.decode("utf-8")\<close>: the text of the bytes, or UnicodeDecodeError.\<close>

definition decode_utf8 :: "string \<Rightarrow> error + string" where
  "decode_utf8 bs = (if utf8_valid bs then Inr bs else Inl UnicodeDecodeError)"

definition digit_char :: "nat \<Rightarrow> char" where
  "digit_char d = ''0123456789'' ! (d mod 10)"

fun str_nat :: "nat \<Rightarrow> string" where
  "str_nat n = (if n < 10 then [digit_char n] else str_nat (n div 10) @ [digit_char (n mod 10)])"

text \<open>\<^verbatim>\<open>str(i)\<close> of a Python int, as an f-string renders it.\<close>

definition str_int :: "int \<Rightarrow> string" where
  "str_int i = (if i < 0 then CHR ''-'' # str_nat (nat (- i)) else str_nat (nat i))"

definition hex_digit :: "string \<Rightarrow> nat \<Rightarrow> char" where
  "hex_digit digits d = digits ! (d mod 16)"

definition hex2 :: "string \<Rightarrow> nat \<Rightarrow> string" where
  "hex2 digits n = [hex_digit digits (n div 16), hex_digit digits n]"

text \<open>\<^verbatim>\<open>repr\<close> of a bytes object, as an f-string renders \<^verbatim>\<open>{alma_response.content}\<close>.\<close>

definition repr_byte :: "char \<Rightarrow> char \<Rightarrow> string" where
  "repr_byte quote c =
     (if c = quote \<or> c = CHR 0x5C then [CHR 0x5C, c]
      else if c = CHR 0x09 then [CHR 0x5C, CHR ''t'']
      else if c = CHR 0x0A then [CHR 0x5C, CHR ''n'']
      else if c = CHR 0x0D then [CHR 0x5C, CHR ''r'']
      else if byte c < 0x20 \<or> 0x7F \<le> byte c
        then [CHR 0x5C, CHR ''x''] @ hex2 ''0123456789abcdef'' (byte c)
      else [c])"

definition repr_bytes :: "string \<Rightarrow> string" where
  "repr_bytes bs =
     (let quote = (if CHR 0x27 \<in> set bs \<and> CHR 0x22 \<notin> set bs then CHR 0x22 else CHR 0x27)
      in [CHR ''b'', quote] @ concat (map (repr_byte quote) bs) @ [quote])"

definition startswith :: "string \<Rightarrow> string \<Rightarrow> bool" where
  "startswith s p = (take (length p) s = p)"

text \<open>\<^verbatim>\<open>sub in s\<close> on strings.\<close>

fun contains :: "string \<Rightarrow> string \<Rightarrow> bool" where
  "contains [] sub = (sub = [])"
| "contains (c # cs) sub = (startswith (c # cs) sub \<or> contains cs sub)"

text \<open>\<^verbatim>\<open>str.split(s, ',')\<close>: the segments between the separators, never an empty list.\<close>

fun str_split :: "string \<Rightarrow> char \<Rightarrow> string list" where
  "str_split [] sep = [[]]"
| "str_split (c # cs) sep =
     (if c = sep then [] # str_split cs sep
      else (case str_split cs sep of
              w # ws \<Rightarrow> (c # w) # ws
            | [] \<Rightarrow> [[c]]))"

text \<open>Indexing a list with a Python int: a negative index counts from the end, and an
  index out of range raises IndexError.\<close>

definition subscript :: "'a list \<Rightarrow> int \<Rightarrow> error + 'a" where
  "subscript xs i =
     (let j = (if i < 0 then int (length xs) + i else i)
      in if j < 0 \<or> int (length xs) \<le> j then Inl IndexError else Inr (xs ! nat j))"

text \<open>\<^verbatim>\<open>sep.join(xs)\<close>.\<close>

fun join :: "string \<Rightarrow> string list \<Rightarrow> string" where
  "join sep [] = []"
| "join sep [x] = x"
| "join sep (x # y # ys) = x @ sep @ join sep (y # ys)"

text \<open>\<^verbatim>\<open>urllib.parse.urlencode\<close> of a dictionary of strings: every key and value goes
  through \<^verbatim>\<open>quote_plus\<close>, which keeps letters, digits and \<^verbatim>\<open>_.-~\<close>, turns a space
  into \<^verbatim>\<open>+\<close> and writes every other byte as \<^verbatim>\<open>%XX\<close>.\<close>

definition always_safe :: "char \<Rightarrow> bool" where
  "always_safe c =
     (in_range 0x41 0x5A c \<or> in_range 0x61 0x7A c \<or> in_range 0x30 0x39 c
      \<or> c \<in> set ''_.-~'')"

definition quote_plus :: "string \<Rightarrow> string" where
  "quote_plus s =
     concat (map (\<lambda>c. if c = CHR '' '' then ''+''
                      else if always_safe c then [c]
                      else CHR ''%'' # hex2 ''0123456789ABCDEF'' (byte c)) s)"

definition urlencode :: "(string \<times> string) list \<Rightarrow> string" where
  "urlencode query = join ''&'' (map (\<lambda>(k, v). quote_plus k @ ''='' @ quote_plus v) query)"

section \<open>The generic REST client (rest\_call\_api.py)\<close>

record request =
  req_method :: string
  req_url :: string
  req_headers :: "(string \<times> string) list"
  req_data :: "string option"

record response =
  r_status_code :: int
  r_content :: string

text \<open>
  What the program reads from outside itself: the two environment variables
  \<^verbatim>\<open>ALMA_REST_API_KEY\<close> and \<^verbatim>\<open>ALMA_REST_API_BASE_URL\<close>, the timestamp taken when the
  orchestration module is loaded, the remote platform, which answers a request with a
  response or a connection failure and may take into account the requests it has seen
  before, the headers a new session of the HTTP library starts with, which depend on
  the library's version, and Python's \<^verbatim>\<open>repr\<close> of a dictionary, whose escaping of
  code points depends on the Unicode database.
\<close>

record env =
  api_key :: string
  api_base_url :: string
  job_timestamp :: nat
  remote :: "request list \<Rightarrow> request \<Rightarrow> error + response"
  default_headers :: "(string \<times> string) list"
  repr_dict :: "(string \<times> string) list \<Rightarrow> string"

text \<open>The effects of the client on the outside: the lines given to the logger, in order,
  and the requests sent, in order.\<close>

record io =
  logged :: "(level \<times> string) list"
  sent :: "request list"

definition logger_info :: "string \<Rightarrow> io \<Rightarrow> io" where
  "logger_info msg w = w\<lparr>logged := logged w @ [(INFO, msg)]\<rparr>"

definition logger_warning :: "string \<Rightarrow> io \<Rightarrow> io" where
  "logger_warning msg w = w\<lparr>logged := logged w @ [(WARNING, msg)]\<rparr>"

definition logger_error :: "string \<Rightarrow> io \<Rightarrow> io" where
  "logger_error msg w = w\<lparr>logged := logged w @ [(ERROR, msg)]\<rparr>"

text \<open>
  The headers of a session are a dictionary whose keys compare without regard to case
  (header names are ASCII): setting a header that is present under any spelling
  replaces its name and value in place, and setting a new one appends it.
\<close>

definition lower_char :: "char \<Rightarrow> char" where
  "lower_char c =
     (case map_of (zip ''ABCDEFGHIJKLMNOPQRSTUVWXYZ'' ''abcdefghijklmnopqrstuvwxyz'') c of
        None \<Rightarrow> c
      | Some l \<Rightarrow> l)"

definition lower :: "string \<Rightarrow> string" where
  "lower s = map lower_char s"

fun set_header :: "(string \<times> string) list \<Rightarrow> string \<times> string \<Rightarrow> (string \<times> string) list" where
  "set_header [] kv = [kv]"
| "set_header (h # hs) kv =
     (if lower (fst h) = lower (fst kv) then kv # hs else h # set_header hs kv)"

text \<open>\<^verbatim>\<open>create_alma_api_session\<close>: a new session, whose headers are the library's defaults
  updated with the four headers of the source, in the order the source lists them. A
  session is its header dictionary.\<close>

definition create_alma_api_session :: "env \<Rightarrow> string \<Rightarrow> (string \<times> string) list" where
  "create_alma_api_session e session_format =
     foldl set_header (default_headers e)
       [(''accept'', ''application/'' @ session_format),
        (''Content-Type'', ''application/'' @ session_format),
        (''authorization'', ''apikey '' @ api_key e),
        (''User-Agent'', ''alma_rest/0.0.1'')]"

text \<open>\<^verbatim>\<open>session.get(url)\<close> and its siblings: the request is sent, and the platform's answer
  is returned or its failure raised.\<close>

definition send :: "env \<Rightarrow> request \<Rightarrow> io \<Rightarrow> (error + response) \<times> io" where
  "send e rq w = (remote e (sent w) rq, w\<lparr>sent := sent w @ [rq]\<rparr>)"

definition switch_api_method ::
  "env \<Rightarrow> string \<Rightarrow> string \<Rightarrow> (string \<times> string) list \<Rightarrow> string option \<Rightarrow> io
    \<Rightarrow> (error + response) \<times> io" where
  "switch_api_method e alma_url method session record_data w =
     (if method = ''DELETE'' then
        send e \<lparr>req_method = ''DELETE'', req_url = alma_url, req_headers = session,
                req_data = None\<rparr> w
      else if method = ''GET'' then
        send e \<lparr>req_method = ''GET'', req_url = alma_url, req_headers = session,
                req_data = None\<rparr> w
      else if method = ''POST'' then
        send e \<lparr>req_method = ''POST'', req_url = alma_url, req_headers = session,
                req_data = record_data\<rparr> w
      else if method = ''PUT'' then
        send e \<lparr>req_method = ''PUT'', req_url = alma_url, req_headers = session,
                req_data = record_data\<rparr> w
      else (Inl ValueError, logger_error ''No valid REST method supplied.'' w))"

text \<open>The request that \<^verbatim>\<open>call_api\<close> hands to the session for one of the four methods:
  the body travels with POST and PUT only.\<close>

definition api_request :: "env \<Rightarrow> string \<Rightarrow> string \<Rightarrow> string option \<Rightarrow> request" where
  "api_request e method url_parameters record_data =
     \<lparr>req_method = method, req_url = api_base_url e @ url_parameters,
      req_headers = create_alma_api_session e ''xml'',
      req_data = (if method = ''POST'' \<or> method = ''PUT'' then record_data else None)\<rparr>"

text \<open>The three messages that \<^verbatim>\<open>call_api\<close> formats: the line for a completed call, the
  \<^verbatim>\<open>log_string\<close> for an error list inside a response of the expected status, and the
  \<^verbatim>\<open>error_string\<close> for a response of another status.\<close>

definition completed_string :: "string \<Rightarrow> string \<Rightarrow> string" where
  "completed_string method url_parameters =
     method @ '' for record \"'' @ url_parameters @ ''\" completed.''"

definition log_string :: "int \<Rightarrow> response \<Rightarrow> string" where
  "log_string status_code alma_response =
     ''The response contained an error, even though it had status code ''
       @ str_int status_code @ ''. ''
       @ ''Reason: '' @ str_int (r_status_code alma_response) @ '' - ''
       @ repr_bytes (r_content alma_response)"

definition error_string :: "string \<Rightarrow> string \<Rightarrow> response \<Rightarrow> string \<Rightarrow> string" where
  "error_string method url_parameters alma_response body =
     method @ '' for record \"'' @ url_parameters @ ''\" failed. ''
       @ ''Reason: '' @ str_int (r_status_code alma_response) @ '' - '' @ body"

text \<open>
  \<^verbatim>\<open>call_api\<close>. The result is the returned text (\<open>None\<close> when the function falls off its
  end) or the exception raised. In the branch for a body that does not start with
  \<^verbatim>\<open><?xml\<close>, the source adds a set to a string
  (\<^verbatim>\<open>log_string += {alma_response_content}\<close>), which raises TypeError before the
  logger is called.
\<close>

definition call_api ::
  "env \<Rightarrow> string \<Rightarrow> string \<Rightarrow> int \<Rightarrow> string option \<Rightarrow> io \<Rightarrow> (error + string option) \<times> io" where
  "call_api e url_parameters method status_code record_data w =
     (let session = create_alma_api_session e ''xml'';
          alma_url = api_base_url e @ url_parameters
      in case switch_api_method e alma_url method session record_data w of
           (Inl err, w1) \<Rightarrow> (Inl err, w1)
         | (Inr alma_response, w1) \<Rightarrow>
             if r_status_code alma_response = status_code then
               (case decode_utf8 (r_content alma_response) of
                  Inl err \<Rightarrow> (Inl err, w1)
                | Inr alma_response_content \<Rightarrow>
                    let w2 = logger_info (completed_string method url_parameters) w1
                    in if contains alma_response_content ''<errorList>'' then
                         (Inr (Some alma_response_content),
                          logger_warning (log_string status_code alma_response) w2)
                       else if \<not> startswith alma_response_content ''<?xml'' \<and> status_code \<noteq> 204
                         then (Inl TypeError, w2)
                       else (Inr (Some alma_response_content), w2))
             else
               (case decode_utf8 (r_content alma_response) of
                  Inl err \<Rightarrow> (Inl err, w1)
                | Inr body \<Rightarrow>
                    (Inr None,
                     logger_error (error_string method url_parameters alma_response body) w1)))"

text \<open>\<^verbatim>\<open>add_parameters\<close> logs, builds the extended URL in its own local variable and
  returns nothing.\<close>

definition add_parameters :: "env \<Rightarrow> string \<Rightarrow> (string \<times> string) list \<Rightarrow> io \<Rightarrow> unit \<times> io" where
  "add_parameters e url parameters w =
     (let w1 = logger_info (''Additional parameters provided: '' @ repr_dict e parameters @ ''.'') w;
          url_parameters = urlencode parameters;
          url = url @ ''?'' @ url_parameters
      in ((), w1))"

text \<open>Truth value of an optional dictionary: \<open>None\<close> and the empty dictionary are false.\<close>

definition truthy_dict :: "(string \<times> string) list option \<Rightarrow> bool" where
  "truthy_dict d = (case d of None \<Rightarrow> False | Some kvs \<Rightarrow> kvs \<noteq> [])"

record GenericApi =
  base_path :: string

definition create ::
  "env \<Rightarrow> GenericApi \<Rightarrow> string \<Rightarrow> (string \<times> string) list option \<Rightarrow> io
    \<Rightarrow> (error + string option) \<times> io" where
  "create e self record_data url_parameters w =
     (let w1 = logger_info (''Trying POST for '' @ base_path self @ ''.'') w;
          w2 = (if truthy_dict url_parameters
                then snd (add_parameters e (base_path self) (the url_parameters) w1) else w1)
      in call_api e (base_path self) ''POST'' 200 (Some record_data) w2)"

definition delete ::
  "env \<Rightarrow> GenericApi \<Rightarrow> string \<Rightarrow> (string \<times> string) list option \<Rightarrow> io
    \<Rightarrow> (error + string option) \<times> io" where
  "delete e self record_id url_parameters w =
     (let w1 = logger_info
            (''Trying DELETE for record '' @ record_id @ '' at '' @ base_path self @ ''.'') w;
          w2 = (if truthy_dict url_parameters
                then snd (add_parameters e (base_path self) (the url_parameters) w1) else w1)
      in call_api e (base_path self @ record_id) ''DELETE'' 204 None w2)"

definition retrieve ::
  "env \<Rightarrow> GenericApi \<Rightarrow> string \<Rightarrow> (string \<times> string) list option \<Rightarrow> io
    \<Rightarrow> (error + string option) \<times> io" where
  "retrieve e self record_id url_parameters w =
     (let w1 = logger_info
            (''Trying GET for record '' @ record_id @ '' at '' @ base_path self @ ''.'') w;
          w2 = (if truthy_dict url_parameters
                then snd (add_parameters e (base_path self) (the url_parameters) w1) else w1)
      in call_api e (base_path self @ record_id) ''GET'' 200 None w2)"

definition update ::
  "env \<Rightarrow> GenericApi \<Rightarrow> string \<Rightarrow> string \<Rightarrow> (string \<times> string) list option \<Rightarrow> io
    \<Rightarrow> (error + string option) \<times> io" where
  "update e self record_id record_data url_parameters w =
     (let w1 = logger_info
            (''Trying PUT for record '' @ record_id @ '' at '' @ base_path self @ ''.'') w;
          w2 = (if truthy_dict url_parameters
                then snd (add_parameters e (base_path self) (the url_parameters) w1) else w1)
      in call_api e (base_path self @ record_id) ''PUT'' 200 (Some record_data) w2)"

section \<open>The persistence layer\<close>

text \<open>
  Modelled from the spec: the module \<^verbatim>\<open>db_read_write\<close> (with \<^verbatim>\<open>db_setup\<close>) is not among the
  sources, so its operations follow section 4.5 of the specification: the five tables
  are append-only lists of rows, an insert appends one row, \<^verbatim>\<open>update_job_status\<close> sets the
  status of the rows matched on identifier, action and timestamp, and nothing commits by
  itself. A session is the database it works on; the number of commits is counted.
\<close>

record job_status_entry =
  js_alma_id :: string
  js_action :: string
  js_status :: string
  js_timestamp :: nat

record stored_record =
  sr_alma_id :: string
  sr_timestamp :: nat
  sr_data :: string

type_synonym csv_line = "(string \<times> string) list"

record database =
  job_status_per_id :: "job_status_entry list"
  source_csv :: "(nat \<times> csv_line) list"
  fetched_records :: "stored_record list"
  sent_records :: "stored_record list"
  put_post_responses :: "stored_record list"
  commits :: nat

definition commit :: "database \<Rightarrow> database" where
  "commit db = db\<lparr>commits := Suc (commits db)\<rparr>"

definition add_alma_id_to_job_status_per_id ::
  "string \<Rightarrow> string \<Rightarrow> nat \<Rightarrow> database \<Rightarrow> database" where
  "add_alma_id_to_job_status_per_id alma_id action ts db =
     db\<lparr>job_status_per_id := job_status_per_id db @
          [\<lparr>js_alma_id = alma_id, js_action = action, js_status = ''new'',
            js_timestamp = ts\<rparr>]\<rparr>"

definition set_status :: "string \<Rightarrow> string \<Rightarrow> string \<Rightarrow> nat \<Rightarrow> job_status_entry \<Rightarrow> job_status_entry" where
  "set_status status alma_id action ts row =
     (if js_alma_id row = alma_id \<and> js_action row = action \<and> js_timestamp row = ts
      then row\<lparr>js_status := status\<rparr> else row)"

definition update_job_status ::
  "string \<Rightarrow> string \<Rightarrow> string \<Rightarrow> nat \<Rightarrow> database \<Rightarrow> database" where
  "update_job_status status alma_id action ts db =
     db\<lparr>job_status_per_id := map (set_status status alma_id action ts) (job_status_per_id db)\<rparr>"

definition add_response_content_to_fetched_records ::
  "string \<Rightarrow> string \<Rightarrow> nat \<Rightarrow> database \<Rightarrow> database" where
  "add_response_content_to_fetched_records alma_id record_data ts db =
     db\<lparr>fetched_records := fetched_records db @
          [\<lparr>sr_alma_id = alma_id, sr_timestamp = ts, sr_data = record_data\<rparr>]\<rparr>"

definition add_sent_record :: "string \<Rightarrow> string \<Rightarrow> nat \<Rightarrow> database \<Rightarrow> database" where
  "add_sent_record alma_id record_data ts db =
     db\<lparr>sent_records := sent_records db @
          [\<lparr>sr_alma_id = alma_id, sr_timestamp = ts, sr_data = record_data\<rparr>]\<rparr>"

definition add_put_post_response :: "string \<Rightarrow> string \<Rightarrow> nat \<Rightarrow> database \<Rightarrow> database" where
  "add_put_post_response alma_id response_data ts db =
     db\<lparr>put_post_responses := put_post_responses db @
          [\<lparr>sr_alma_id = alma_id, sr_timestamp = ts, sr_data = response_data\<rparr>]\<rparr>"

definition bodies_for :: "string \<Rightarrow> nat \<Rightarrow> stored_record list \<Rightarrow> string list" where
  "bodies_for alma_id ts rows =
     map sr_data (filter (\<lambda>row. sr_alma_id row = alma_id \<and> sr_timestamp row = ts) rows)"

definition check_data_sent_equals_response :: "string \<Rightarrow> nat \<Rightarrow> database \<Rightarrow> io \<Rightarrow> io" where
  "check_data_sent_equals_response alma_id ts db w =
     (if bodies_for alma_id ts (sent_records db) \<noteq> bodies_for alma_id ts (put_post_responses db)
      then logger_warning (''Data sent and response differ for '' @ alma_id @ ''.'') w
      else w)"

definition count_status :: "string \<Rightarrow> string \<Rightarrow> nat \<Rightarrow> database \<Rightarrow> nat" where
  "count_status status action ts db =
     length (filter (\<lambda>row. js_action row = action \<and> js_timestamp row = ts
                            \<and> js_status row = status) (job_status_per_id db))"

definition log_success_rate :: "string \<Rightarrow> nat \<Rightarrow> database \<Rightarrow> io \<Rightarrow> io" where
  "log_success_rate action ts db w =
     logger_info (''Success rate for '' @ action @ '': ''
        @ str_nat (count_status ''done'' action ts db) @ '' done, ''
        @ str_nat (count_status ''error'' action ts db) @ '' error, ''
        @ str_nat (count_status ''new'' action ts db) @ '' new.'') w"

section \<open>The orchestration with all methods but create (alma\_rest/alma\_rest.py)\<close>

text \<open>
  The modules \<^verbatim>\<open>rest_bibs\<close>, \<^verbatim>\<open>rest_electronic\<close>, \<^verbatim>\<open>rest_users\<close>, \<^verbatim>\<open>rest_setup\<close> and
  \<^verbatim>\<open>rest_conf\<close> that the orchestration imports are not among the sources. An object of
  one of their classes is taken as the three methods the orchestration calls on it, and
  the modules as the constructors of the classes and the function that resolves a set;
  every definition below holds for any such modules.
\<close>

record api_object =
  obj_retrieve :: "string \<Rightarrow> io \<Rightarrow> (error + string option) \<times> io"
  obj_delete :: "string \<Rightarrow> io \<Rightarrow> (error + string option) \<times> io"
  obj_update :: "string \<Rightarrow> string \<Rightarrow> io \<Rightarrow> (error + string option) \<times> io"

record rest_modules =
  BibsApi :: api_object
  HoldingsApi :: "string \<Rightarrow> api_object"
  ItemsApi :: "string \<Rightarrow> string \<Rightarrow> api_object"
  PortfoliosApi :: "string \<Rightarrow> api_object"
  EcollectionsApi :: api_object
  EservicesApi :: "string \<Rightarrow> api_object"
  ElectronicPortfoliosApi :: "string \<Rightarrow> string \<Rightarrow> api_object"
  UsersApi :: api_object
  retrieve_set_member_alma_ids :: "string \<Rightarrow> io \<Rightarrow> (error + string list option) \<times> io"

text \<open>\<^verbatim>\<open>instantiate_api_class\<close>: the dispatch on api and record type; the ancestors are read
  from the split identifier by index, which raises IndexError when a segment is missing.\<close>

definition instantiate_api_class ::
  "rest_modules \<Rightarrow> string \<Rightarrow> string \<Rightarrow> string \<Rightarrow> io \<Rightarrow> (error + api_object) \<times> io" where
  "instantiate_api_class m alma_id api record_type w =
     (let split_alma_id = str_split alma_id (CHR '','')
      in if api = ''bibs'' then
           (if record_type = ''bibs'' then (Inr (BibsApi m), w)
            else if record_type = ''holdings'' then
              (case subscript split_alma_id 0 of
                 Inl err \<Rightarrow> (Inl err, w)
               | Inr mms_id \<Rightarrow> (Inr (HoldingsApi m mms_id), w))
            else if record_type = ''items'' then
              (case subscript split_alma_id 0 of
                 Inl err \<Rightarrow> (Inl err, w)
               | Inr mms_id \<Rightarrow>
                   (case subscript split_alma_id 1 of
                      Inl err \<Rightarrow> (Inl err, w)
                    | Inr hol_id \<Rightarrow> (Inr (ItemsApi m mms_id hol_id), w)))
            else if record_type = ''portfolios'' then
              (case subscript split_alma_id 0 of
                 Inl err \<Rightarrow> (Inl err, w)
               | Inr mms_id \<Rightarrow> (Inr (PortfoliosApi m mms_id), w))
            else (Inl NotImplementedError, w))
         else if api = ''electronic'' then
           (if record_type = ''e-collections'' then (Inr (EcollectionsApi m), w)
            else if record_type = ''e-services'' then
              (case subscript split_alma_id 0 of
                 Inl err \<Rightarrow> (Inl err, w)
               | Inr collection_id \<Rightarrow> (Inr (EservicesApi m collection_id), w))
            else if record_type = ''portfolios'' then
              (case subscript split_alma_id 0 of
                 Inl err \<Rightarrow> (Inl err, w)
               | Inr collection_id \<Rightarrow>
                   (case subscript split_alma_id 1 of
                      Inl err \<Rightarrow> (Inl err, w)
                    | Inr service_id \<Rightarrow>
                        (Inr (ElectronicPortfoliosApi m collection_id service_id), w)))
            else (Inl NotImplementedError, w))
         else if api = ''users'' then
           (if record_type = ''users'' then (Inr (UsersApi m), w)
            else (Inl NotImplementedError, w))
         else (Inl NotImplementedError,
               logger_error
                 ''The API you are trying to call is not implemented yet or does not exist.'' w))"

text \<open>Truth value of an optional text: \<open>None\<close> and the empty text are false.\<close>

definition truthy :: "string option \<Rightarrow> bool" where
  "truthy x = (case x of None \<Rightarrow> False | Some s \<Rightarrow> s \<noteq> [])"

text \<open>The branch \<^verbatim>\<open>if method == 'DELETE'\<close> of \<^verbatim>\<open>call_api_for_record\<close>.\<close>

definition delete_branch ::
  "env \<Rightarrow> api_object \<Rightarrow> string \<Rightarrow> string \<Rightarrow> string \<Rightarrow> database \<Rightarrow> io
    \<Rightarrow> (error + unit) \<times> database \<times> io" where
  "delete_branch e CurrentApi alma_id record_id method db_session w =
     (let db1 = add_alma_id_to_job_status_per_id alma_id method (job_timestamp e) db_session
      in case obj_delete CurrentApi record_id w of
           (Inl err, w1) \<Rightarrow> (Inl err, db1, w1)
         | (Inr alma_response, w1) \<Rightarrow>
             if alma_response = None
             then (Inr (), update_job_status ''error'' alma_id method (job_timestamp e) db1, w1)
             else (Inr (), update_job_status ''done'' alma_id method (job_timestamp e) db1, w1))"

text \<open>The branch \<^verbatim>\<open>elif method == 'PUT'\<close>. Calling a \<^verbatim>\<open>manipulate_record\<close> that was left
  at its default \<open>None\<close> raises TypeError.\<close>

definition put_branch ::
  "env \<Rightarrow> api_object \<Rightarrow> string \<Rightarrow> string \<Rightarrow> string \<Rightarrow> string
    \<Rightarrow> (string \<Rightarrow> string \<Rightarrow> string option) option \<Rightarrow> database \<Rightarrow> io
    \<Rightarrow> (error + unit) \<times> database \<times> io" where
  "put_branch e CurrentApi alma_id record_id method record_data manipulate_record db_session w =
     (let db1 = add_alma_id_to_job_status_per_id alma_id method (job_timestamp e) db_session
      in case manipulate_record of
           None \<Rightarrow> (Inl TypeError, db1, w)
         | Some f \<Rightarrow>
            (let new_record_data = f alma_id record_data
             in if \<not> truthy new_record_data then
                  (Inr (),
                   update_job_status ''error'' alma_id method (job_timestamp e) db1,
                   logger_error (''Could not manipulate data of record '' @ alma_id @ ''.'') w)
                else
                  (case obj_update CurrentApi record_id (the new_record_data) w of
                     (Inl err, w1) \<Rightarrow> (Inl err, db1, w1)
                   | (Inr response, w1) \<Rightarrow>
                       if truthy response then
                         (let w2 = logger_info
                                (''Manipulation for '' @ alma_id
                                   @ '' successful. Adding to put_post_responses.'') w1;
                              db2 = add_put_post_response alma_id (the response)
                                      (job_timestamp e) db1;
                              db3 = add_sent_record alma_id (the new_record_data)
                                      (job_timestamp e) db2;
                              db4 = update_job_status ''done'' alma_id method
                                      (job_timestamp e) db3
                          in (Inr (), db4,
                              check_data_sent_equals_response alma_id (job_timestamp e) db4 w2))
                       else
                         (Inr (),
                          update_job_status ''error'' alma_id method (job_timestamp e) db1,
                          logger_error
                            (''Did not receive a response for '' @ alma_id @ ''?'') w1))))"

text \<open>\<^verbatim>\<open>call_api_for_record\<close>. The result carries the database and the log as they are
  when the function returns or raises.\<close>

definition call_api_for_record ::
  "env \<Rightarrow> rest_modules \<Rightarrow> string \<Rightarrow> string \<Rightarrow> string \<Rightarrow> string \<Rightarrow> database
    \<Rightarrow> (string \<Rightarrow> string \<Rightarrow> string option) option \<Rightarrow> io
    \<Rightarrow> (error + unit) \<times> database \<times> io" where
  "call_api_for_record e m alma_id api record_type method db_session manipulate_record w =
     (if method \<notin> set [''DELETE'', ''GET'', ''PUT'', ''POST''] then
        (Inl ValueError, db_session,
         logger_error
           (''Provided method '' @ method @ '' does not match any of the expected values.'') w)
      else if method = ''POST'' then (Inl NotImplementedError, db_session, w)
      else
        (case instantiate_api_class m alma_id api record_type w of
           (Inl err, w1) \<Rightarrow> (Inl err, db_session, w1)
         | (Inr CurrentApi, w1) \<Rightarrow>
            (let db1 = add_alma_id_to_job_status_per_id alma_id ''GET'' (job_timestamp e)
                         db_session;
                 record_id = last (str_split alma_id (CHR '',''))
             in case obj_retrieve CurrentApi record_id w1 of
                  (Inl err, w2) \<Rightarrow> (Inl err, db1, w2)
                | (Inr record_data, w2) \<Rightarrow>
                    if \<not> truthy record_data then
                      (Inr (),
                       commit (update_job_status ''error'' alma_id ''GET'' (job_timestamp e) db1),
                       logger_error (''Could not fetch record '' @ alma_id @ ''.'') w2)
                    else
                      (let db2 = add_response_content_to_fetched_records alma_id
                                   (the record_data) (job_timestamp e) db1;
                           db3 = update_job_status ''done'' alma_id ''GET'' (job_timestamp e) db2;
                           db4 = commit db3
                       in case (if method = ''DELETE'' then
                                  delete_branch e CurrentApi alma_id record_id method db4 w2
                                else if method = ''PUT'' then
                                  put_branch e CurrentApi alma_id record_id method
                                    (the record_data) manipulate_record db4 w2
                                else (Inr (), db4, w2)) of
                            (Inl err, db5, w3) \<Rightarrow> (Inl err, db5, w3)
                          | (Inr u, db5, w3) \<Rightarrow> (Inr (), commit db5, w3)))))"

text \<open>The loop of \<^verbatim>\<open>call_api_for_list\<close>: the identifiers in order; an exception ends it.\<close>

fun for_alma_ids ::
  "env \<Rightarrow> rest_modules \<Rightarrow> string list \<Rightarrow> string \<Rightarrow> string \<Rightarrow> string
    \<Rightarrow> (string \<Rightarrow> string \<Rightarrow> string option) option \<Rightarrow> database \<Rightarrow> io
    \<Rightarrow> (error + unit) \<times> database \<times> io" where
  "for_alma_ids e m [] api record_type method manipulate_record db_session w =
     (Inr (), db_session, w)"
| "for_alma_ids e m (alma_id # rest) api record_type method manipulate_record db_session w =
     (case call_api_for_record e m alma_id api record_type method db_session
             manipulate_record w of
        (Inl err, db1, w1) \<Rightarrow> (Inl err, db1, w1)
      | (Inr u, db1, w1) \<Rightarrow>
          for_alma_ids e m rest api record_type method manipulate_record db1 w1)"

text \<open>\<^verbatim>\<open>call_api_for_list\<close>. Iterating over \<open>None\<close> raises TypeError.\<close>

definition call_api_for_list ::
  "env \<Rightarrow> rest_modules \<Rightarrow> string list option \<Rightarrow> string \<Rightarrow> string \<Rightarrow> string
    \<Rightarrow> (string \<Rightarrow> string \<Rightarrow> string option) option \<Rightarrow> database \<Rightarrow> io
    \<Rightarrow> (error + unit) \<times> database \<times> io" where
  "call_api_for_list e m alma_ids api record_type method manipulate_record db w =
     (case alma_ids of
        None \<Rightarrow> (Inl TypeError, db, w)
      | Some ids \<Rightarrow>
          (case for_alma_ids e m ids api record_type method manipulate_record db w of
             (Inl err, db1, w1) \<Rightarrow> (Inl err, db1, w1)
           | (Inr u, db1, w1) \<Rightarrow>
               (Inr (), db1, log_success_rate method (job_timestamp e) db1 w1)))"

text \<open>The objects that the guard of \<^verbatim>\<open>call_api_for_set\<close> compares: \<^verbatim>\<open>type(x)\<close> is a class,
  and \<^verbatim>\<open>is None\<close> asks whether it is the object \<open>None\<close>.\<close>

datatype py_class = NoneType | ListClass

datatype py_object = NoneObject | ClassObject py_class

definition type_of :: "string list option \<Rightarrow> py_object" where
  "type_of x = ClassObject (case x of None \<Rightarrow> NoneType | Some xs \<Rightarrow> ListClass)"

text \<open>\<^verbatim>\<open>call_api_for_set\<close>. The source registers the row of the set with
  \<^verbatim>\<open>add_alma_id_to_job_status_per_id('GET', set_id, ...)\<close>.\<close>

definition call_api_for_set ::
  "env \<Rightarrow> rest_modules \<Rightarrow> string \<Rightarrow> string \<Rightarrow> string \<Rightarrow> string
    \<Rightarrow> (string \<Rightarrow> string \<Rightarrow> string option) option \<Rightarrow> database \<Rightarrow> io
    \<Rightarrow> (error + unit) \<times> database \<times> io" where
  "call_api_for_set e m set_id api record_type method manipulate_record db w =
     (let db1 = add_alma_id_to_job_status_per_id ''GET'' set_id (job_timestamp e) db
      in case retrieve_set_member_alma_ids m set_id w of
           (Inl err, w1) \<Rightarrow> (Inl err, db1, w1)
         | (Inr alma_id_list, w1) \<Rightarrow>
            (let (db2, w2) =
                   (if type_of alma_id_list = NoneObject then
                      (update_job_status ''error'' set_id ''GET'' (job_timestamp e) db1,
                       logger_error
                         (''An error occurred while retrieving the set's members. Is the set ''
                            @ set_id @ '' empty?'') w1)
                    else (db1, w1))
             in case call_api_for_list e m alma_id_list api record_type method
                       manipulate_record db2 w2 of
                  (Inl err, db3, w3) \<Rightarrow> (Inl err, db3, w3)
                | (Inr u, db3, w3) \<Rightarrow>
                    (Inr (),
                     commit (update_job_status ''done'' set_id ''GET'' (job_timestamp e) db3),
                     w3)))"

section \<open>Reading input files\<close>

text \<open>
  Modelled from the spec: the module \<^verbatim>\<open>input_read\<close> is not among the sources, so the
  reader follows section 4.2 of the specification. A file system gives, for the path of
  a readable file, the rows that parsing it yields, each row an ordered dictionary from
  column name to value. With validation the reader skips, with a logged warning, every
  row whose first column is not an identifier: comma-joined segments of digits whose
  last segment starts with one of the five known prefixes. A path without a readable
  file yields no rows.
\<close>

type_synonym file_system = "string \<Rightarrow> csv_line list option"

definition check_file_path :: "file_system \<Rightarrow> string \<Rightarrow> bool" where
  "check_file_path fs path = (fs path \<noteq> None)"

definition is_valid_alma_id :: "string \<Rightarrow> bool" where
  "is_valid_alma_id s =
     (let segments = str_split s (CHR '','')
      in list_all (\<lambda>seg. seg \<noteq> [] \<and> list_all (in_range 0x30 0x39) seg) segments
         \<and> take 2 (last segments) \<in> set [''99'', ''22'', ''23'', ''53'', ''61''])"

text \<open>\<^verbatim>\<open>list(csv_line.values())[0]\<close>: the value of the first column.\<close>

definition first_column :: "csv_line \<Rightarrow> error + string" where
  "first_column line = subscript (map snd line) 0"

definition valid_line :: "csv_line \<Rightarrow> bool" where
  "valid_line line = (case first_column line of Inl err \<Rightarrow> False | Inr v \<Rightarrow> is_valid_alma_id v)"

fun read_rows :: "bool \<Rightarrow> csv_line list \<Rightarrow> io \<Rightarrow> csv_line list \<times> io" where
  "read_rows validation [] w = ([], w)"
| "read_rows validation (line # rest) w =
     (if validation \<and> \<not> valid_line line
      then read_rows validation rest
             (logger_warning ''Skipping a line whose first column is not a valid Alma ID.'' w)
      else (case read_rows validation rest w of (kept, w1) \<Rightarrow> (line # kept, w1)))"

definition read_csv_contents ::
  "file_system \<Rightarrow> string \<Rightarrow> bool \<Rightarrow> io \<Rightarrow> csv_line list \<times> io" where
  "read_csv_contents fs path validation w =
     (case fs path of None \<Rightarrow> ([], w) | Some rows \<Rightarrow> read_rows validation rows w)"

section \<open>The CSV helper (almapipo/input\_helpers.py)\<close>

text \<open>
  The constructor takes the reader of \<^verbatim>\<open>input_read\<close> as a parameter. Its argument
  \<^verbatim>\<open>validation\<close> is optional and defaults to \<open>False\<close>; the rows the reader yields are
  stored as a list.
\<close>

record CsvHelper =
  csv_line_list :: "csv_line list"

definition CsvHelper_init ::
  "(string \<Rightarrow> bool \<Rightarrow> io \<Rightarrow> csv_line list \<times> io) \<Rightarrow> string \<Rightarrow> bool option \<Rightarrow> io
    \<Rightarrow> CsvHelper \<times> io" where
  "CsvHelper_init reader csv_path validation w =
     (let validation = (case validation of None \<Rightarrow> False | Some b \<Rightarrow> b)
      in case reader csv_path validation w of
           (rows, w1) \<Rightarrow> (\<lparr>csv_line_list = rows\<rparr>, w1))"

text \<open>\<^verbatim>\<open>extract_almaids\<close>, consumed to its end: the first value of every row, or the
  IndexError of the first row that has no column.\<close>

fun first_columns :: "csv_line list \<Rightarrow> error + string list" where
  "first_columns [] = Inr []"
| "first_columns (line # rest) =
     (case first_column line of
        Inl err \<Rightarrow> Inl err
      | Inr v \<Rightarrow> (case first_columns rest of Inl err \<Rightarrow> Inl err | Inr vs \<Rightarrow> Inr (v # vs)))"

definition extract_almaids :: "CsvHelper \<Rightarrow> error + string list" where
  "extract_almaids self = first_columns (csv_line_list self)"

text \<open>Modelled from the spec: \<^verbatim>\<open>db_write.add_csv_line_to_source_csv_table\<close> is not among the
  sources; it inserts one row of \<^verbatim>\<open>source_csv\<close>.\<close>

definition add_csv_line_to_source_csv_table :: "csv_line \<Rightarrow> nat \<Rightarrow> database \<Rightarrow> database" where
  "add_csv_line_to_source_csv_table line ts db =
     db\<lparr>source_csv := source_csv db @ [(ts, line)]\<rparr>"

fun add_lines :: "csv_line list \<Rightarrow> nat \<Rightarrow> database \<Rightarrow> database" where
  "add_lines [] ts db = db"
| "add_lines (line # rest) ts db = add_lines rest ts (add_csv_line_to_source_csv_table line ts db)"

definition add_to_source_csv_table :: "CsvHelper \<Rightarrow> nat \<Rightarrow> database \<Rightarrow> database" where
  "add_to_source_csv_table self ts db_session = add_lines (csv_line_list self) ts db_session"

section \<open>The orchestration for retrieval only (alma\_rest.py)\<close>

text \<open>
  Modelled from the spec: the persistence functions of this generation are not among the
  sources. Following sections 4.5 and 4.9, \<^verbatim>\<open>add_csv_line_to_session\<close> stores the row in
  \<^verbatim>\<open>source_csv\<close> and registers its first column as a new job-status row for the action,
  \<^verbatim>\<open>get_list_of_ids_for_job_with_status\<close> selects the identifiers of a run by status, and
  \<^verbatim>\<open>update_job_status_for_alma_id\<close> sets the status of the rows of an identifier in the run.
\<close>

definition add_csv_line_to_session :: "csv_line \<Rightarrow> nat \<Rightarrow> database \<Rightarrow> string \<Rightarrow> database" where
  "add_csv_line_to_session line ts db action =
     (let db1 = db\<lparr>source_csv := source_csv db @ [(ts, line)]\<rparr>
      in case first_column line of
           Inl err \<Rightarrow> db1
         | Inr alma_id \<Rightarrow> add_alma_id_to_job_status_per_id alma_id action ts db1)"

definition get_list_of_ids_for_job_with_status :: "string \<Rightarrow> nat \<Rightarrow> database \<Rightarrow> string list" where
  "get_list_of_ids_for_job_with_status status ts db =
     map js_alma_id
       (filter (\<lambda>row. js_status row = status \<and> js_timestamp row = ts) (job_status_per_id db))"

definition set_status_for_alma_id :: "string \<Rightarrow> string \<Rightarrow> nat \<Rightarrow> job_status_entry \<Rightarrow> job_status_entry" where
  "set_status_for_alma_id status alma_id ts row =
     (if js_alma_id row = alma_id \<and> js_timestamp row = ts
      then row\<lparr>js_status := status\<rparr> else row)"

definition update_job_status_for_alma_id ::
  "string \<Rightarrow> string \<Rightarrow> nat \<Rightarrow> database \<Rightarrow> database" where
  "update_job_status_for_alma_id status alma_id ts db =
     db\<lparr>job_status_per_id := map (set_status_for_alma_id status alma_id ts) (job_status_per_id db)\<rparr>"

definition add_fetched_record_to_session ::
  "string \<Rightarrow> string \<Rightarrow> nat \<Rightarrow> database \<Rightarrow> database" where
  "add_fetched_record_to_session alma_id record_data ts db =
     db\<lparr>fetched_records := fetched_records db @
          [\<lparr>sr_alma_id = alma_id, sr_timestamp = ts, sr_data = record_data\<rparr>]\<rparr>"

text \<open>The one-shot retrieval functions of the module \<^verbatim>\<open>rest_bibs\<close> of this generation,
  which is not among the sources, are parameters.\<close>

record rest_bibs =
  get_bib :: "string \<Rightarrow> io \<Rightarrow> (error + string option) \<times> io"
  get_hol :: "string \<Rightarrow> string \<Rightarrow> io \<Rightarrow> (error + string option) \<times> io"
  get_item :: "string \<Rightarrow> string \<Rightarrow> string \<Rightarrow> io \<Rightarrow> (error + string option) \<times> io"
  get_portfolio :: "string \<Rightarrow> string \<Rightarrow> io \<Rightarrow> (error + string option) \<times> io"
  get_e_collection :: "string \<Rightarrow> string \<Rightarrow> io \<Rightarrow> (error + string option) \<times> io"

text \<open>The chain of \<^verbatim>\<open>if id_prefix == ...\<close> in the loop of
  \<^verbatim>\<open>get_records_via_api_for_csv_list\<close>, which leaves \<^verbatim>\<open>record_data\<close>.\<close>

definition record_data_for ::
  "rest_bibs \<Rightarrow> string \<Rightarrow> io \<Rightarrow> (error + string option) \<times> io" where
  "record_data_for rb alma_id w =
     (let split_alma_id = str_split alma_id (CHR '','');
          id_prefix = take 2 (last split_alma_id)
      in if id_prefix = ''99'' then get_bib rb alma_id w
         else if id_prefix = ''22'' then
           (case subscript split_alma_id 0 of
              Inl err \<Rightarrow> (Inl err, w)
            | Inr mms_id \<Rightarrow>
                (case subscript split_alma_id 1 of
                   Inl err \<Rightarrow> (Inl err, w)
                 | Inr hol_id \<Rightarrow> get_hol rb mms_id hol_id w))
         else if id_prefix = ''23'' then
           (case subscript split_alma_id 0 of
              Inl err \<Rightarrow> (Inl err, w)
            | Inr mms_id \<Rightarrow>
                (case subscript split_alma_id 1 of
                   Inl err \<Rightarrow> (Inl err, w)
                 | Inr hol_id \<Rightarrow>
                     (case subscript split_alma_id 2 of
                        Inl err \<Rightarrow> (Inl err, w)
                      | Inr itm_id \<Rightarrow> get_item rb mms_id hol_id itm_id w)))
         else if id_prefix = ''53'' then
           (case subscript split_alma_id 0 of
              Inl err \<Rightarrow> (Inl err, w)
            | Inr mms_id \<Rightarrow>
                (case subscript split_alma_id 1 of
                   Inl err \<Rightarrow> (Inl err, w)
                 | Inr portfolio_id \<Rightarrow> get_portfolio rb mms_id portfolio_id w))
         else if id_prefix = ''61'' then
           (case subscript split_alma_id 0 of
              Inl err \<Rightarrow> (Inl err, w)
            | Inr mms_id \<Rightarrow>
                (case subscript split_alma_id 1 of
                   Inl err \<Rightarrow> (Inl err, w)
                 | Inr collection_id \<Rightarrow> get_e_collection rb mms_id collection_id w))
         else (Inr None,
               logger_error
                 ''Alma-Id does not have one of the expected prefixes (99, 22, 23 or 53).'' w))"

text \<open>The body of the loop, for one identifier.\<close>

definition get_record_for_alma_id ::
  "env \<Rightarrow> rest_bibs \<Rightarrow> string \<Rightarrow> database \<Rightarrow> io \<Rightarrow> (error + unit) \<times> database \<times> io" where
  "get_record_for_alma_id e rb alma_id db_session w =
     (case record_data_for rb alma_id w of
        (Inl err, w1) \<Rightarrow> (Inl err, db_session, w1)
      | (Inr record_data, w1) \<Rightarrow>
          (case record_data of
             None \<Rightarrow>
               (Inr (),
                update_job_status_for_alma_id ''error'' alma_id (job_timestamp e) db_session, w1)
           | Some body \<Rightarrow>
               (Inr (),
                add_fetched_record_to_session alma_id body (job_timestamp e)
                  (update_job_status_for_alma_id ''done'' alma_id (job_timestamp e) db_session),
                w1)))"

fun for_list_of_ids ::
  "env \<Rightarrow> rest_bibs \<Rightarrow> string list \<Rightarrow> database \<Rightarrow> io \<Rightarrow> (error + unit) \<times> database \<times> io" where
  "for_list_of_ids e rb [] db_session w = (Inr (), db_session, w)"
| "for_list_of_ids e rb (alma_id # rest) db_session w =
     (case get_record_for_alma_id e rb alma_id db_session w of
        (Inl err, db1, w1) \<Rightarrow> (Inl err, db1, w1)
      | (Inr u, db1, w1) \<Rightarrow> for_list_of_ids e rb rest db1 w1)"

fun add_csv_lines :: "csv_line list \<Rightarrow> nat \<Rightarrow> database \<Rightarrow> string \<Rightarrow> database" where
  "add_csv_lines [] ts db action = db"
| "add_csv_lines (line # rest) ts db action =
     add_csv_lines rest ts (add_csv_line_to_session line ts db action) action"

definition import_csv_to_db_tables ::
  "env \<Rightarrow> file_system \<Rightarrow> string \<Rightarrow> string \<Rightarrow> bool \<Rightarrow> database \<Rightarrow> io \<Rightarrow> database \<times> io" where
  "import_csv_to_db_tables e fs file_path action validation db w =
     (if check_file_path fs file_path then
        (case read_csv_contents fs file_path validation w of
           (csv_lines, w1) \<Rightarrow>
             (commit (add_csv_lines csv_lines (job_timestamp e) db action), w1))
      else (db, logger_error ''No valid file path provided.'' w))"

definition get_records_via_api_for_csv_list ::
  "env \<Rightarrow> rest_bibs \<Rightarrow> file_system \<Rightarrow> string \<Rightarrow> database \<Rightarrow> io
    \<Rightarrow> (error + unit) \<times> database \<times> io" where
  "get_records_via_api_for_csv_list e rb fs csv_path db w =
     (case import_csv_to_db_tables e fs csv_path ''GET'' True db w of
        (db1, w1) \<Rightarrow>
          (let list_of_ids = get_list_of_ids_for_job_with_status ''new'' (job_timestamp e) db1
           in case for_list_of_ids e rb list_of_ids db1 w1 of
                (Inl err, db2, w2) \<Rightarrow> (Inl err, db2, w2)
              | (Inr u, db2, w2) \<Rightarrow> (Inr (), commit db2, w2)))"

section \<open>Concrete inputs\<close>

text \<open>A platform that gives the same answer to every request, Python's \<^verbatim>\<open>repr\<close> on a
  dictionary of plain ASCII words, an environment around a platform, in which a new
  session has the four default headers of the HTTP library, the state before anything
  was logged or sent, and the empty database.\<close>

definition answering :: "response \<Rightarrow> request list \<Rightarrow> request \<Rightarrow> error + response" where
  "answering r history rq = Inr r"

definition plain_repr_dict :: "(string \<times> string) list \<Rightarrow> string" where
  "plain_repr_dict d =
     ''{'' @ join '', ''
        (map (\<lambda>(k, v). [CHR 0x27] @ k @ [CHR 0x27] @ '': '' @ [CHR 0x27] @ v @ [CHR 0x27]) d)
      @ ''}''"

definition example_env :: "(request list \<Rightarrow> request \<Rightarrow> error + response) \<Rightarrow> env" where
  "example_env platform =
     \<lparr>api_key = ''secret'', api_base_url = ''https://alma.example/almaws/v1'',
      job_timestamp = 7, remote = platform,
      default_headers =
        [(''User-Agent'', ''python-requests/2.31.0''), (''Accept-Encoding'', ''gzip, deflate''),
         (''Accept'', ''*/*''), (''Connection'', ''keep-alive'')],
      repr_dict = plain_repr_dict\<rparr>"

definition quiet :: io where
  "quiet = \<lparr>logged = [], sent = []\<rparr>"

definition empty_database :: database where
  "empty_database =
     \<lparr>job_status_per_id = [], source_csv = [], fetched_records = [], sent_records = [],
      put_post_responses = [], commits = 0\<rparr>"

text \<open>A platform that answers a DELETE with status 204 and an empty body, and every
  other request with status 200 and an XML body.\<close>

definition serving :: "request list \<Rightarrow> request \<Rightarrow> error + response" where
  "serving history rq =
     (if req_method rq = ''DELETE'' then Inr \<lparr>r_status_code = 204, r_content = []\<rparr>
      else Inr \<lparr>r_status_code = 200, r_content = ''<?xml?><bib/>''\<rparr>)"

text \<open>An object whose three methods give fixed results and have no effect, and modules
  whose every class is one given object and whose sets all have the given members.\<close>

definition scripted ::
  "(error + string option) \<Rightarrow> (error + string option) \<Rightarrow> (error + string option) \<Rightarrow> api_object" where
  "scripted got deleted updated =
     \<lparr>obj_retrieve = (\<lambda>record_id w. (got, w)),
      obj_delete = (\<lambda>record_id w. (deleted, w)),
      obj_update = (\<lambda>record_id record_data w. (updated, w))\<rparr>"

definition every_class :: "api_object \<Rightarrow> string list option \<Rightarrow> rest_modules" where
  "every_class obj members =
     \<lparr>BibsApi = obj, HoldingsApi = (\<lambda>mms_id. obj), ItemsApi = (\<lambda>mms_id hol_id. obj),
      PortfoliosApi = (\<lambda>mms_id. obj), EcollectionsApi = obj,
      EservicesApi = (\<lambda>collection_id. obj),
      ElectronicPortfoliosApi = (\<lambda>collection_id service_id. obj), UsersApi = obj,
      retrieve_set_member_alma_ids = (\<lambda>set_id w. (Inr members, w))\<rparr>"

text \<open>
  Modelled from the spec: the resource classes are not among the sources; by section 4.7
  each is the generic client at a base path built from the ancestors. An object of such
  a class is the generic client's retrieve, delete and update at that path, called as
  the orchestration calls them, without URL parameters.
\<close>

definition generic_object :: "env \<Rightarrow> string \<Rightarrow> api_object" where
  "generic_object e path =
     \<lparr>obj_retrieve = (\<lambda>record_id. retrieve e \<lparr>base_path = path\<rparr> record_id None),
      obj_delete = (\<lambda>record_id. delete e \<lparr>base_path = path\<rparr> record_id None),
      obj_update = (\<lambda>record_id record_data.
         update e \<lparr>base_path = path\<rparr> record_id record_data None)\<rparr>"

definition resource_classes :: "env \<Rightarrow> string list option \<Rightarrow> rest_modules" where
  "resource_classes e members =
     \<lparr>BibsApi = generic_object e ''/bibs/'',
      HoldingsApi = (\<lambda>mms_id. generic_object e (''/bibs/'' @ mms_id @ ''/holdings/'')),
      ItemsApi = (\<lambda>mms_id hol_id.
         generic_object e (''/bibs/'' @ mms_id @ ''/holdings/'' @ hol_id @ ''/items/'')),
      PortfoliosApi = (\<lambda>mms_id. generic_object e (''/bibs/'' @ mms_id @ ''/portfolios/'')),
      EcollectionsApi = generic_object e ''/electronic/e-collections/'',
      EservicesApi = (\<lambda>collection_id.
         generic_object e (''/electronic/e-collections/'' @ collection_id @ ''/e-services/'')),
      ElectronicPortfoliosApi = (\<lambda>collection_id service_id.
         generic_object e (''/electronic/e-collections/'' @ collection_id @ ''/e-services/''
                             @ service_id @ ''/portfolios/'')),
      UsersApi = generic_object e ''/users/'',
      retrieve_set_member_alma_ids = (\<lambda>set_id w. (Inr members, w))\<rparr>"


definition example_files :: file_system where
  "example_files path =
     (if path = ''ids.csv'' then
        Some [[(''MMS-ID'', ''9981093873901234''), (''Consortium-ID'', ''XY0001'')],
              [(''MMS-ID'', ''unknown''), (''Consortium-ID'', ''XY0002'')]]
      else None)"

section \<open>Properties of the generic REST client\<close>

lemma switch_api_method_valid:
  assumes "method \<in> {''DELETE'', ''GET'', ''POST'', ''PUT''}"
  shows "switch_api_method e (api_base_url e @ url_parameters) method
           (create_alma_api_session e ''xml'') record_data w
         = send e (api_request e method url_parameters record_data) w"
  using assms by (auto simp: switch_api_method_def api_request_def)

lemma call_api_send:
  assumes "method \<in> {''DELETE'', ''GET'', ''POST'', ''PUT''}"
  shows "sent (snd (call_api e url_parameters method status_code record_data w))
         = sent w @ [api_request e method url_parameters record_data]"
proof (cases "remote e (sent w) (api_request e method url_parameters record_data)")
  case (Inl err)
  then show ?thesis
    unfolding call_api_def Let_def switch_api_method_valid[OF assms] send_def by simp
next
  case (Inr r)
  then show ?thesis
    unfolding call_api_def Let_def switch_api_method_valid[OF assms] send_def
    by (cases "decode_utf8 (r_content r)")
       (simp_all add: logger_info_def logger_warning_def logger_error_def)
qed

lemma sent_add_parameters: "sent (snd (add_parameters e url parameters w)) = sent w"
  by (simp add: add_parameters_def Let_def logger_info_def)

lemma call_api_answered:
  assumes m: "method \<in> {''DELETE'', ''GET'', ''POST'', ''PUT''}"
    and r: "remote e (sent w) (api_request e method url_parameters record_data) = Inr r"
  shows "call_api e url_parameters method status_code record_data w =
     (let w1 = w\<lparr>sent := sent w @ [api_request e method url_parameters record_data]\<rparr>
      in if r_status_code r = status_code then
           (case decode_utf8 (r_content r) of
              Inl err \<Rightarrow> (Inl err, w1)
            | Inr alma_response_content \<Rightarrow>
                let w2 = logger_info (completed_string method url_parameters) w1
                in if contains alma_response_content ''<errorList>'' then
                     (Inr (Some alma_response_content),
                      logger_warning (log_string status_code r) w2)
                   else if \<not> startswith alma_response_content ''<?xml'' \<and> status_code \<noteq> 204
                     then (Inl TypeError, w2)
                   else (Inr (Some alma_response_content), w2))
         else
           (case decode_utf8 (r_content r) of
              Inl err \<Rightarrow> (Inl err, w1)
            | Inr body \<Rightarrow>
                (Inr None, logger_error (error_string method url_parameters r body) w1)))"
  unfolding call_api_def Let_def switch_api_method_valid[OF m] send_def
  by (simp only: r prod.case sum.case)

lemma remote_example_env: "remote (example_env (answering r)) history rq = Inr r"
  by (simp add: example_env_def answering_def)

lemma urlencode_view_brief: "urlencode [(''view'', ''brief'')] = ''view=brief''"
  by (simp add: urlencode_def quote_plus_def always_safe_def in_range_def byte_def)

text \<open>
  Claim C1 says that a client operation called with a non-empty dictionary of URL
  parameters sends its request to the base URL, the resource path (and record id) and
  the encoded parameters as a query string. The code does not: \<^verbatim>\<open>add_parameters\<close>
  extends a local variable and returns nothing, and each operation goes on with the path
  it had. Whatever the parameters are, the one request of create, retrieve, update and
  delete goes to the base URL followed by the path (and record id) alone.
\<close>

theorem client_url_has_no_query_string:
  "sent (snd (create e self record_data url_parameters w))
     = sent w @ [api_request e ''POST'' (base_path self) (Some record_data)]
   \<and> sent (snd (retrieve e self record_id url_parameters w))
     = sent w @ [api_request e ''GET'' (base_path self @ record_id) None]
   \<and> sent (snd (update e self record_id record_data url_parameters w))
     = sent w @ [api_request e ''PUT'' (base_path self @ record_id) (Some record_data)]
   \<and> sent (snd (delete e self record_id url_parameters w))
     = sent w @ [api_request e ''DELETE'' (base_path self @ record_id) None]"
  by (simp add: create_def retrieve_def update_def delete_def Let_def call_api_send
      sent_add_parameters logger_info_def)

text \<open>
  C1 at a concrete input: retrieving record 991 under \<^verbatim>\<open>/bibs/\<close> with the parameters
  \<^verbatim>\<open>{'view': 'brief'}\<close> sends the request to \<^verbatim>\<open>.../bibs/991\<close>, where the claim expects
  \<^verbatim>\<open>.../bibs/991?view=brief\<close>.
\<close>

theorem client_url_has_no_query_string_witness:
  "map req_url (sent (snd (retrieve
      (example_env (answering \<lparr>r_status_code = 200, r_content = ''<?xml?>''\<rparr>))
      \<lparr>base_path = ''/bibs/''\<rparr> ''991'' (Some [(''view'', ''brief'')]) quiet)))
     = [''https://alma.example/almaws/v1/bibs/991'']
   \<and> ''https://alma.example/almaws/v1'' @ ''/bibs/'' @ ''991'' @ ''?''
        @ urlencode [(''view'', ''brief'')]
     = ''https://alma.example/almaws/v1/bibs/991?view=brief''"
proof -
  have "sent (snd (retrieve
      (example_env (answering \<lparr>r_status_code = 200, r_content = ''<?xml?>''\<rparr>))
      \<lparr>base_path = ''/bibs/''\<rparr> ''991'' (Some [(''view'', ''brief'')]) quiet))
     = sent quiet @ [api_request
         (example_env (answering \<lparr>r_status_code = 200, r_content = ''<?xml?>''\<rparr>))
         ''GET'' (base_path \<lparr>base_path = ''/bibs/''\<rparr> @ ''991'') None]"
    using client_url_has_no_query_string by blast
  then show ?thesis
    by (simp add: api_request_def example_env_def quiet_def urlencode_view_brief)
qed

text \<open>
  Claim C2 says that a response of the expected status whose body does not start with
  \<^verbatim>\<open><?xml\<close>, the expected status not being 204, is logged as an error and its body still
  returned. The code does neither: when the body holds no \<^verbatim>\<open><errorList>\<close>, the branch
  that builds the error message adds a set to a string, so the call raises TypeError
  after the line "completed" was logged; no error is logged and no body returned.
\<close>

theorem call_api_not_xml_raises:
  assumes "method \<in> {''DELETE'', ''GET'', ''POST'', ''PUT''}"
    and "remote e (sent w) (api_request e method url_parameters record_data) = Inr r"
    and "r_status_code r = status_code"
    and "status_code \<noteq> 204"
    and "utf8_valid (r_content r)"
    and "\<not> contains (r_content r) ''<errorList>''"
    and "\<not> startswith (r_content r) ''<?xml''"
  shows "call_api e url_parameters method status_code record_data w =
     (Inl TypeError,
      w\<lparr>sent := sent w @ [api_request e method url_parameters record_data],
        logged := logged w @ [(INFO, completed_string method url_parameters)]\<rparr>)"
  using assms(3-7)
  by (simp add: call_api_answered[OF assms(1,2)] decode_utf8_def logger_info_def Let_def)

text \<open>C2 at a concrete input: a GET answered with status 200 and the body \<^verbatim>\<open>OK\<close>.\<close>

theorem call_api_not_xml_raises_witness:
  "call_api (example_env (answering \<lparr>r_status_code = 200, r_content = ''OK''\<rparr>))
      ''/bibs/991'' ''GET'' 200 None quiet =
     (Inl TypeError,
      \<lparr>logged = [(INFO, ''GET for record \"/bibs/991\" completed.'')],
       sent = [api_request (example_env (answering \<lparr>r_status_code = 200, r_content = ''OK''\<rparr>))
                 ''GET'' ''/bibs/991'' None]\<rparr>)"
  using call_api_not_xml_raises[of "''GET''"
      "example_env (answering \<lparr>r_status_code = 200, r_content = ''OK''\<rparr>)" quiet
      "''/bibs/991''" None "\<lparr>r_status_code = 200, r_content = ''OK''\<rparr>" 200]
  by (simp add: remote_example_env quiet_def byte_def startswith_def completed_string_def)

text \<open>
  For a response of another status than the expected one whose body is valid UTF-8, the
  client does what its documentation says: the call returns no value, raises nothing,
  and logs exactly one line, an error that names the method, the path, the received
  status and the body.
\<close>

lemma call_api_status_mismatch:
  assumes "method \<in> {''DELETE'', ''GET'', ''POST'', ''PUT''}"
    and "remote e (sent w) (api_request e method url_parameters record_data) = Inr r"
    and "r_status_code r \<noteq> status_code"
    and "utf8_valid (r_content r)"
  shows "call_api e url_parameters method status_code record_data w =
     (Inr None,
      w\<lparr>sent := sent w @ [api_request e method url_parameters record_data],
        logged := logged w @
          [(ERROR, method @ '' for record \"'' @ url_parameters @ ''\" failed. Reason: ''
                   @ str_int (r_status_code r) @ '' - '' @ r_content r)]\<rparr>)"
  using assms(3,4)
  by (simp add: call_api_answered[OF assms(1,2)] decode_utf8_def logger_error_def
      error_string_def)

lemma call_api_status_mismatch_at_404:
  "call_api (example_env (answering \<lparr>r_status_code = 404, r_content = ''<gone/>''\<rparr>))
      ''/bibs/991'' ''GET'' 200 None quiet =
     (Inr None,
      \<lparr>logged = [(ERROR, ''GET for record \"/bibs/991\" failed. Reason: 404 - <gone/>'')],
       sent = [api_request
                 (example_env (answering \<lparr>r_status_code = 404, r_content = ''<gone/>''\<rparr>))
                 ''GET'' ''/bibs/991'' None]\<rparr>)"
  using call_api_status_mismatch[of "''GET''"
      "example_env (answering \<lparr>r_status_code = 404, r_content = ''<gone/>''\<rparr>)" quiet
      "''/bibs/991''" None "\<lparr>r_status_code = 404, r_content = ''<gone/>''\<rparr>" 200]
  by (simp add: remote_example_env quiet_def byte_def str_int_def digit_char_def)

text \<open>
  Claim C3 says that every call whose response has another status than the expected
  one returns no value, logs exactly one error that names the method, the path, the
  status and the body, and raises nothing. The code does not do so for every response:
  the error message is built from \<^verbatim>\<open>alma_response.content.decode("utf-8")\<close>, so a body
  that is not valid UTF-8 makes the call raise UnicodeDecodeError before the logger is
  reached. Nothing is logged and the caller gets an exception where the documentation
  of the client promises the logged error and the absent result.
\<close>

theorem call_api_undecodable_body_raises:
  assumes "method \<in> {''DELETE'', ''GET'', ''POST'', ''PUT''}"
    and "remote e (sent w) (api_request e method url_parameters record_data) = Inr r"
    and "r_status_code r \<noteq> status_code"
    and "\<not> utf8_valid (r_content r)"
  shows "call_api e url_parameters method status_code record_data w =
     (Inl UnicodeDecodeError,
      w\<lparr>sent := sent w @ [api_request e method url_parameters record_data]\<rparr>)"
  using assms(3,4)
  by (simp add: call_api_answered[OF assms(1,2)] decode_utf8_def)

text \<open>C3 at a concrete input: a GET answered with status 500 and a body of the single
  byte FF.\<close>

theorem call_api_undecodable_body_raises_witness:
  "call_api (example_env (answering \<lparr>r_status_code = 500, r_content = [CHR 0xFF]\<rparr>))
      ''/bibs/991'' ''GET'' 200 None quiet =
     (Inl UnicodeDecodeError,
      \<lparr>logged = [],
       sent = [api_request
                 (example_env (answering \<lparr>r_status_code = 500, r_content = [CHR 0xFF]\<rparr>))
                 ''GET'' ''/bibs/991'' None]\<rparr>)"
  using call_api_undecodable_body_raises[of "''GET''"
      "example_env (answering \<lparr>r_status_code = 500, r_content = [CHR 0xFF]\<rparr>)" quiet
      "''/bibs/991''" None "\<lparr>r_status_code = 500, r_content = [CHR 0xFF]\<rparr>" 200]
  by (simp add: remote_example_env quiet_def byte_def in_range_def)

section \<open>Properties of the orchestration with all methods but create\<close>

text \<open>
  Claim C6: called with the method POST, \<^verbatim>\<open>call_api_for_record\<close> raises
  NotImplementedError, and called with a method outside DELETE, GET, PUT and POST it
  raises ValueError; in both cases the database is as it was, with no job-status row
  registered and nothing written. For POST the log is as it was too; for an unknown
  method one error line was logged before the exception.
\<close>

theorem call_api_for_record_rejects_method:
  "(method = ''POST'' \<longrightarrow>
      call_api_for_record e m alma_id api record_type method db_session manipulate_record w
        = (Inl NotImplementedError, db_session, w))
   \<and> (method \<notin> {''DELETE'', ''GET'', ''PUT'', ''POST''} \<longrightarrow>
      call_api_for_record e m alma_id api record_type method db_session manipulate_record w
        = (Inl ValueError, db_session,
           w\<lparr>logged := logged w @
              [(ERROR, ''Provided method '' @ method
                  @ '' does not match any of the expected values.'')]\<rparr>))"
  by (simp add: call_api_for_record_def logger_error_def)

text \<open>C6 at the methods POST and PATCH, on the empty database.\<close>

theorem call_api_for_record_rejects_method_witness:
  "call_api_for_record
      (example_env (answering \<lparr>r_status_code = 200, r_content = ''<?xml?>''\<rparr>))
      (every_class (scripted (Inr None) (Inr None) (Inr None)) None)
      ''991'' ''bibs'' ''bibs'' ''POST'' empty_database None quiet
     = (Inl NotImplementedError, empty_database, quiet)
   \<and> call_api_for_record
      (example_env (answering \<lparr>r_status_code = 200, r_content = ''<?xml?>''\<rparr>))
      (every_class (scripted (Inr None) (Inr None) (Inr None)) None)
      ''991'' ''bibs'' ''bibs'' ''PATCH'' empty_database None quiet
     = (Inl ValueError, empty_database,
        \<lparr>logged = [(ERROR, ''Provided method PATCH does not match any of the expected values.'')],
         sent = []\<rparr>)"
  using call_api_for_record_rejects_method[of "''POST''" _ _ "''991''" "''bibs''" "''bibs''"
      empty_database None quiet]
    call_api_for_record_rejects_method[of "''PATCH''"
      "example_env (answering \<lparr>r_status_code = 200, r_content = ''<?xml?>''\<rparr>)"
      "every_class (scripted (Inr None) (Inr None) (Inr None)) None" "''991''" "''bibs''"
      "''bibs''" empty_database None quiet]
  by (simp add: quiet_def)

lemma not_truthy_iff: "\<not> truthy x \<longleftrightarrow> x = None \<or> x = Some []"
  by (cases x) (simp_all add: truthy_def)

lemma call_api_for_record_not_fetched:
  assumes m: "method \<in> {''DELETE'', ''GET'', ''PUT''}"
    and inst: "instantiate_api_class m alma_id api record_type w = (Inr CurrentApi, w1)"
    and get: "obj_retrieve CurrentApi (last (str_split alma_id (CHR '',''))) w1 = (Inr record_data, w2)"
    and falsy: "\<not> truthy record_data"
  shows "call_api_for_record e m alma_id api record_type method db_session manipulate_record w =
     (Inr (),
      commit (update_job_status ''error'' alma_id ''GET'' (job_timestamp e)
        (add_alma_id_to_job_status_per_id alma_id ''GET'' (job_timestamp e) db_session)),
      logger_error (''Could not fetch record '' @ alma_id @ ''.'') w2)"
proof -
  have v: "\<not> method \<notin> set [''DELETE'', ''GET'', ''PUT'', ''POST'']" "method \<noteq> ''POST''"
    using m by auto
  show ?thesis
    unfolding call_api_for_record_def Let_def
    by (simp only: v if_False inst get prod.case sum.case falsy not_False_eq_True if_True)
qed

lemma call_api_for_record_fetched:
  assumes m: "method \<in> {''DELETE'', ''GET'', ''PUT''}"
    and inst: "instantiate_api_class m alma_id api record_type w = (Inr CurrentApi, w1)"
    and get: "obj_retrieve CurrentApi (last (str_split alma_id (CHR '',''))) w1 = (Inr (Some record_data), w2)"
    and truthy: "record_data \<noteq> []"
  shows "call_api_for_record e m alma_id api record_type method db_session manipulate_record w =
     (case (if method = ''DELETE'' then
              delete_branch e CurrentApi alma_id (last (str_split alma_id (CHR '','')))
                method
                (commit (update_job_status ''done'' alma_id ''GET'' (job_timestamp e)
                  (add_response_content_to_fetched_records alma_id record_data (job_timestamp e)
                    (add_alma_id_to_job_status_per_id alma_id ''GET'' (job_timestamp e)
                       db_session)))) w2
            else if method = ''PUT'' then
              put_branch e CurrentApi alma_id (last (str_split alma_id (CHR '','')))
                method record_data manipulate_record
                (commit (update_job_status ''done'' alma_id ''GET'' (job_timestamp e)
                  (add_response_content_to_fetched_records alma_id record_data (job_timestamp e)
                    (add_alma_id_to_job_status_per_id alma_id ''GET'' (job_timestamp e)
                       db_session)))) w2
            else (Inr (),
                commit (update_job_status ''done'' alma_id ''GET'' (job_timestamp e)
                  (add_response_content_to_fetched_records alma_id record_data (job_timestamp e)
                    (add_alma_id_to_job_status_per_id alma_id ''GET'' (job_timestamp e)
                       db_session))), w2)) of
        (Inl err, db5, w3) \<Rightarrow> (Inl err, db5, w3)
      | (Inr u, db5, w3) \<Rightarrow> (Inr (), commit db5, w3))"
proof -
  have v: "\<not> method \<notin> set [''DELETE'', ''GET'', ''PUT'', ''POST'']" "method \<noteq> ''POST''"
    using m by auto
  have t: "\<not> \<not> truthy (Some record_data)"
    using truthy by (simp add: truthy_def)
  show ?thesis
    unfolding call_api_for_record_def Let_def
    by (simp only: v if_False inst get prod.case sum.case t option.sel)
qed


lemma put_branch_no_value:
  assumes "\<not> truthy (f alma_id record_data)"
  shows "put_branch e CurrentApi alma_id record_id method record_data (Some f) db w =
     (Inr (),
      update_job_status ''error'' alma_id method (job_timestamp e)
        (add_alma_id_to_job_status_per_id alma_id method (job_timestamp e) db),
      logger_error (''Could not manipulate data of record '' @ alma_id @ ''.'') w)"
  unfolding put_branch_def Let_def
  by (simp only: option.case assms not_False_eq_True if_True)

lemma set_status_untouched:
  "js_alma_id row \<noteq> alma_id \<or> js_timestamp row \<noteq> ts
    \<Longrightarrow> set_status status alma_id action ts row = row"
  by (auto simp: set_status_def)

lemma map_set_status_untouched:
  "\<forall>row \<in> set rows. js_alma_id row \<noteq> alma_id \<or> js_timestamp row \<noteq> ts
    \<Longrightarrow> map (set_status status alma_id action ts) rows = rows"
  by (induction rows) (auto simp: set_status_untouched)

text \<open>
  Claim C7: when \<^verbatim>\<open>call_api_for_record\<close> is called with the method PUT, the GET succeeds
  and the transform yields no value (\<open>None\<close> or empty data), the call returns normally
  and exactly two job-status rows are appended, (GET, done) and behind it (PUT, error);
  the PUT phase leaves the (GET, done) row as it is; nothing is written to
  \<^verbatim>\<open>sent_records\<close> or \<^verbatim>\<open>put_post_responses\<close>, and the fetched body is stored. Older rows
  change only where \<^verbatim>\<open>update_job_status\<close> matches them: when the identifier has no
  older row in this run, they stay as they were.
\<close>

theorem put_transform_without_value:
  assumes inst: "instantiate_api_class m alma_id api record_type w = (Inr CurrentApi, w1)"
    and get: "obj_retrieve CurrentApi (last (str_split alma_id (CHR '',''))) w1
                = (Inr (Some record_data), w2)"
    and fetched: "record_data \<noteq> []"
    and no_value: "f alma_id record_data = None \<or> f alma_id record_data = Some []"
    and result: "result = call_api_for_record e m alma_id api record_type ''PUT'' db_session
                   (Some f) w"
  shows "fst result = Inr ()
    \<and> job_status_per_id (fst (snd result)) =
        map (set_status ''error'' alma_id ''PUT'' (job_timestamp e))
          (map (set_status ''done'' alma_id ''GET'' (job_timestamp e))
             (job_status_per_id db_session))
        @ [\<lparr>js_alma_id = alma_id, js_action = ''GET'', js_status = ''done'',
             js_timestamp = job_timestamp e\<rparr>,
           \<lparr>js_alma_id = alma_id, js_action = ''PUT'', js_status = ''error'',
             js_timestamp = job_timestamp e\<rparr>]
    \<and> ((\<forall>row \<in> set (job_status_per_id db_session).
            js_alma_id row \<noteq> alma_id \<or> js_timestamp row \<noteq> job_timestamp e)
         \<longrightarrow> job_status_per_id (fst (snd result)) =
               job_status_per_id db_session
               @ [\<lparr>js_alma_id = alma_id, js_action = ''GET'', js_status = ''done'',
                    js_timestamp = job_timestamp e\<rparr>,
                  \<lparr>js_alma_id = alma_id, js_action = ''PUT'', js_status = ''error'',
                    js_timestamp = job_timestamp e\<rparr>])
    \<and> sent_records (fst (snd result)) = sent_records db_session
    \<and> put_post_responses (fst (snd result)) = put_post_responses db_session
    \<and> fetched_records (fst (snd result)) =
        fetched_records db_session
        @ [\<lparr>sr_alma_id = alma_id, sr_timestamp = job_timestamp e, sr_data = record_data\<rparr>]"
proof -
  have falsy: "\<not> truthy (f alma_id record_data)"
    using no_value by (simp add: not_truthy_iff)
  have m: "''PUT'' \<in> {''DELETE'', ''GET'', ''PUT''}" by simp
  have r: "result =
     (Inr (),
      commit (update_job_status ''error'' alma_id ''PUT'' (job_timestamp e)
        (add_alma_id_to_job_status_per_id alma_id ''PUT'' (job_timestamp e)
          (commit (update_job_status ''done'' alma_id ''GET'' (job_timestamp e)
            (add_response_content_to_fetched_records alma_id record_data (job_timestamp e)
              (add_alma_id_to_job_status_per_id alma_id ''GET'' (job_timestamp e)
                 db_session)))))),
      logger_error (''Could not manipulate data of record '' @ alma_id @ ''.'') w2)"
    unfolding result call_api_for_record_fetched[OF m inst get fetched]
      put_branch_no_value[of f alma_id record_data, OF falsy]
    by simp
  have rows: "job_status_per_id (fst (snd result)) =
        map (set_status ''error'' alma_id ''PUT'' (job_timestamp e))
          (map (set_status ''done'' alma_id ''GET'' (job_timestamp e))
             (job_status_per_id db_session))
        @ [\<lparr>js_alma_id = alma_id, js_action = ''GET'', js_status = ''done'',
             js_timestamp = job_timestamp e\<rparr>,
           \<lparr>js_alma_id = alma_id, js_action = ''PUT'', js_status = ''error'',
             js_timestamp = job_timestamp e\<rparr>]"
    unfolding r
    by (simp add: commit_def update_job_status_def add_alma_id_to_job_status_per_id_def
        add_response_content_to_fetched_records_def set_status_def)
  have tables: "sent_records (fst (snd result)) = sent_records db_session
    \<and> put_post_responses (fst (snd result)) = put_post_responses db_session
    \<and> fetched_records (fst (snd result)) =
        fetched_records db_session
        @ [\<lparr>sr_alma_id = alma_id, sr_timestamp = job_timestamp e, sr_data = record_data\<rparr>]"
    unfolding r
    by (simp add: commit_def update_job_status_def add_alma_id_to_job_status_per_id_def
        add_response_content_to_fetched_records_def)
  have ok: "fst result = Inr ()" unfolding r by simp
  have fresh: "job_status_per_id (fst (snd result)) =
               job_status_per_id db_session
               @ [\<lparr>js_alma_id = alma_id, js_action = ''GET'', js_status = ''done'',
                    js_timestamp = job_timestamp e\<rparr>,
                  \<lparr>js_alma_id = alma_id, js_action = ''PUT'', js_status = ''error'',
                    js_timestamp = job_timestamp e\<rparr>]"
    if "\<forall>row \<in> set (job_status_per_id db_session).
            js_alma_id row \<noteq> alma_id \<or> js_timestamp row \<noteq> job_timestamp e"
    unfolding rows map_set_status_untouched[OF that] ..
  from ok rows fresh tables show ?thesis by blast
qed


lemma str_split_991: "str_split ''991'' (CHR '','') = [''991'']"
  by simp

lemma retrieve_bib_991:
  "retrieve (example_env (answering \<lparr>r_status_code = 200, r_content = ''<?xml?><bib/>''\<rparr>))
     \<lparr>base_path = ''/bibs/''\<rparr> ''991'' None quiet
   = (Inr (Some ''<?xml?><bib/>''),
      \<lparr>logged = [(INFO, ''Trying GET for record 991 at /bibs/.''),
                 (INFO, ''GET for record \"/bibs/991\" completed.'')],
       sent = [api_request
                 (example_env (answering \<lparr>r_status_code = 200, r_content = ''<?xml?><bib/>''\<rparr>))
                 ''GET'' ''/bibs/991'' None]\<rparr>)"
  by (simp add: retrieve_def truthy_dict_def Let_def logger_info_def quiet_def
      call_api_answered[of "''GET''" _ _ _ _ "\<lparr>r_status_code = 200, r_content = ''<?xml?><bib/>''\<rparr>"]
      remote_example_env decode_utf8_def byte_def startswith_def completed_string_def)

text \<open>C7 at a concrete input: the bibliographic record 991 on the empty database, through
  the generic client, with a platform that answers every request with status 200 and an
  XML body, and a transform that returns \<open>None\<close>.\<close>

theorem put_transform_without_value_witness:
  "job_status_per_id (fst (snd (call_api_for_record
      (example_env (answering \<lparr>r_status_code = 200, r_content = ''<?xml?><bib/>''\<rparr>))
      (resource_classes
         (example_env (answering \<lparr>r_status_code = 200, r_content = ''<?xml?><bib/>''\<rparr>)) None)
      ''991'' ''bibs'' ''bibs'' ''PUT'' empty_database (Some (\<lambda>alma_id record_data. None))
      quiet)))
   = [\<lparr>js_alma_id = ''991'', js_action = ''GET'', js_status = ''done'', js_timestamp = 7\<rparr>,
      \<lparr>js_alma_id = ''991'', js_action = ''PUT'', js_status = ''error'', js_timestamp = 7\<rparr>]
   \<and> sent_records (fst (snd (call_api_for_record
      (example_env (answering \<lparr>r_status_code = 200, r_content = ''<?xml?><bib/>''\<rparr>))
      (resource_classes
         (example_env (answering \<lparr>r_status_code = 200, r_content = ''<?xml?><bib/>''\<rparr>)) None)
      ''991'' ''bibs'' ''bibs'' ''PUT'' empty_database (Some (\<lambda>alma_id record_data. None))
      quiet))) = []
   \<and> put_post_responses (fst (snd (call_api_for_record
      (example_env (answering \<lparr>r_status_code = 200, r_content = ''<?xml?><bib/>''\<rparr>))
      (resource_classes
         (example_env (answering \<lparr>r_status_code = 200, r_content = ''<?xml?><bib/>''\<rparr>)) None)
      ''991'' ''bibs'' ''bibs'' ''PUT'' empty_database (Some (\<lambda>alma_id record_data. None))
      quiet))) = []"
proof -
  let ?e = "example_env (answering \<lparr>r_status_code = 200, r_content = ''<?xml?><bib/>''\<rparr>)"
  have inst: "instantiate_api_class (resource_classes ?e None) ''991'' ''bibs'' ''bibs'' quiet
                = (Inr (generic_object ?e ''/bibs/''), quiet)"
    by (simp add: instantiate_api_class_def resource_classes_def)
  have get: "obj_retrieve (generic_object ?e ''/bibs/'') (last (str_split ''991'' (CHR '',''))) quiet
     = (Inr (Some ''<?xml?><bib/>''),
      \<lparr>logged = [(INFO, ''Trying GET for record 991 at /bibs/.''),
                 (INFO, ''GET for record \"/bibs/991\" completed.'')],
       sent = [api_request ?e ''GET'' ''/bibs/991'' None]\<rparr>)"
    unfolding str_split_991 by (simp add: generic_object_def retrieve_bib_991)
  have ts: "job_timestamp ?e = 7" by (simp add: example_env_def)
  show ?thesis
    using put_transform_without_value[OF inst get, of "\<lambda>alma_id record_data. None" _ ?e empty_database]
    by (simp add: ts empty_database_def)
qed

lemma delete_branch_answered:
  assumes "obj_delete CurrentApi record_id w = (Inr alma_response, w1)"
  shows "delete_branch e CurrentApi alma_id record_id method db w =
     (Inr (),
      update_job_status (if alma_response = None then ''error'' else ''done'') alma_id method
        (job_timestamp e)
        (add_alma_id_to_job_status_per_id alma_id method (job_timestamp e) db), w1)"
  unfolding delete_branch_def Let_def
  by (simp add: assms)

lemma put_branch_answered:
  assumes "f alma_id record_data = Some new_record_data" "new_record_data \<noteq> []"
    and "obj_update CurrentApi record_id new_record_data w = (Inr response, w1)"
    and "\<not> truthy response"
  shows "put_branch e CurrentApi alma_id record_id method record_data (Some f) db w =
     (Inr (),
      update_job_status ''error'' alma_id method (job_timestamp e)
        (add_alma_id_to_job_status_per_id alma_id method (job_timestamp e) db),
      logger_error (''Did not receive a response for '' @ alma_id @ ''?'') w1)"
proof -
  have t: "truthy (Some new_record_data)" using assms(2) by (simp add: truthy_def)
  show ?thesis
    unfolding put_branch_def Let_def
    by (simp only: option.case assms(1,3,4) t not_True_eq_False if_False option.sel
        prod.case sum.case)
qed

lemma last_registered:
  "last (job_status_per_id
     (update_job_status status alma_id action ts
        (add_alma_id_to_job_status_per_id alma_id action ts db)))
   = \<lparr>js_alma_id = alma_id, js_action = action, js_status = status, js_timestamp = ts\<rparr>"
  by (simp add: update_job_status_def add_alma_id_to_job_status_per_id_def set_status_def)

lemma job_status_commit: "job_status_per_id (commit db) = job_status_per_id db"
  by (simp add: commit_def)

text \<open>
  Claim C9: in \<^verbatim>\<open>call_api_for_record\<close> the test for success differs by phase. When the
  retrieval returns \<open>None\<close> or an empty text, the GET row ends as error; when the update
  of the PUT phase returns \<open>None\<close> or an empty text, the PUT row ends as error; the
  DELETE row ends as error only when the deletion returns \<open>None\<close>, and as done for
  every other result, the empty text included. The row of a phase is the last row of
  the job-status table when the call returns.
\<close>

theorem success_test_by_phase:
  assumes inst: "instantiate_api_class m alma_id api record_type w = (Inr CurrentApi, w1)"
    and rid: "record_id = last (str_split alma_id (CHR '',''))"
  shows
   "(\<forall>method record_data w2 manipulate_record.
       method \<in> {''DELETE'', ''GET'', ''PUT''}
       \<and> obj_retrieve CurrentApi record_id w1 = (Inr record_data, w2)
       \<and> (record_data = None \<or> record_data = Some [])
      \<longrightarrow> last (job_status_per_id (fst (snd (call_api_for_record e m alma_id api record_type
                 method db_session manipulate_record w))))
          = \<lparr>js_alma_id = alma_id, js_action = ''GET'', js_status = ''error'',
              js_timestamp = job_timestamp e\<rparr>)
    \<and> (\<forall>record_data w2 f new_record_data response w3.
       obj_retrieve CurrentApi record_id w1 = (Inr (Some record_data), w2)
       \<and> record_data \<noteq> []
       \<and> f alma_id record_data = Some new_record_data \<and> new_record_data \<noteq> []
       \<and> obj_update CurrentApi record_id new_record_data w2 = (Inr response, w3)
       \<and> (response = None \<or> response = Some [])
      \<longrightarrow> last (job_status_per_id (fst (snd (call_api_for_record e m alma_id api record_type
                 ''PUT'' db_session (Some f) w))))
          = \<lparr>js_alma_id = alma_id, js_action = ''PUT'', js_status = ''error'',
              js_timestamp = job_timestamp e\<rparr>)
    \<and> (\<forall>record_data w2 manipulate_record alma_response w3.
       obj_retrieve CurrentApi record_id w1 = (Inr (Some record_data), w2)
       \<and> record_data \<noteq> []
       \<and> obj_delete CurrentApi record_id w2 = (Inr alma_response, w3)
      \<longrightarrow> last (job_status_per_id (fst (snd (call_api_for_record e m alma_id api record_type
                 ''DELETE'' db_session manipulate_record w))))
          = \<lparr>js_alma_id = alma_id, js_action = ''DELETE'',
              js_status = (if alma_response = None then ''error'' else ''done''),
              js_timestamp = job_timestamp e\<rparr>)"
proof (intro conjI allI impI; (elim conjE)?)
  fix meth record_data w2 manipulate_record
  assume m: "meth \<in> {''DELETE'', ''GET'', ''PUT''}"
    and get: "obj_retrieve CurrentApi record_id w1 = (Inr record_data, w2)"
    and falsy: "record_data = None \<or> record_data = Some []"
  have f: "\<not> truthy record_data" using falsy by (simp add: not_truthy_iff)
  show "last (job_status_per_id (fst (snd (call_api_for_record e m alma_id api record_type
                 meth db_session manipulate_record w))))
          = \<lparr>js_alma_id = alma_id, js_action = ''GET'', js_status = ''error'',
              js_timestamp = job_timestamp e\<rparr>"
    unfolding call_api_for_record_not_fetched[OF m inst get[unfolded rid] f]
    by (simp add: job_status_commit last_registered)
next
  fix record_data w2 f new_record_data response w3
  assume get: "obj_retrieve CurrentApi record_id w1 = (Inr (Some record_data), w2)"
    and fetched: "record_data \<noteq> []"
    and new: "f alma_id record_data = Some new_record_data" "new_record_data \<noteq> []"
    and upd: "obj_update CurrentApi record_id new_record_data w2 = (Inr response, w3)"
    and falsy: "response = None \<or> response = Some []"
  have m: "''PUT'' \<in> {''DELETE'', ''GET'', ''PUT''}" by simp
  have r: "\<not> truthy response" using falsy by (simp add: not_truthy_iff)
  show "last (job_status_per_id (fst (snd (call_api_for_record e m alma_id api record_type
                 ''PUT'' db_session (Some f) w))))
          = \<lparr>js_alma_id = alma_id, js_action = ''PUT'', js_status = ''error'',
              js_timestamp = job_timestamp e\<rparr>"
    unfolding call_api_for_record_fetched[OF m inst get[unfolded rid] fetched]
      put_branch_answered[of f alma_id record_data, OF new upd[unfolded rid] r]
    by (simp add: job_status_commit last_registered)
next
  fix record_data w2 manipulate_record alma_response w3
  assume get: "obj_retrieve CurrentApi record_id w1 = (Inr (Some record_data), w2)"
    and fetched: "record_data \<noteq> []"
    and del: "obj_delete CurrentApi record_id w2 = (Inr alma_response, w3)"
  have m: "''DELETE'' \<in> {''DELETE'', ''GET'', ''PUT''}" by simp
  show "last (job_status_per_id (fst (snd (call_api_for_record e m alma_id api record_type
                 ''DELETE'' db_session manipulate_record w))))
          = \<lparr>js_alma_id = alma_id, js_action = ''DELETE'',
              js_status = (if alma_response = None then ''error'' else ''done''),
              js_timestamp = job_timestamp e\<rparr>"
    unfolding call_api_for_record_fetched[OF m inst get[unfolded rid] fetched]
      delete_branch_answered[OF del[unfolded rid]]
    by (simp add: job_status_commit last_registered)
qed


lemma retrieve_served:
  "retrieve (example_env serving) \<lparr>base_path = ''/bibs/''\<rparr> ''991'' None quiet
   = (Inr (Some ''<?xml?><bib/>''),
      \<lparr>logged = [(INFO, ''Trying GET for record 991 at /bibs/.''),
                 (INFO, ''GET for record \"/bibs/991\" completed.'')],
       sent = [api_request (example_env serving) ''GET'' ''/bibs/991'' None]\<rparr>)"
proof -
  have "remote (example_env serving) (sent quiet)
          (api_request (example_env serving) ''GET'' ''/bibs/991'' None)
        = Inr \<lparr>r_status_code = 200, r_content = ''<?xml?><bib/>''\<rparr>"
    by (simp add: example_env_def serving_def api_request_def)
  then show ?thesis
    by (simp add: retrieve_def truthy_dict_def Let_def logger_info_def quiet_def
        call_api_answered[of "''GET''" _ _ _ _ "\<lparr>r_status_code = 200, r_content = ''<?xml?><bib/>''\<rparr>"]
        decode_utf8_def byte_def startswith_def completed_string_def)
qed

lemma delete_served:
  "fst (delete (example_env serving) \<lparr>base_path = ''/bibs/''\<rparr> ''991'' None w) = Inr (Some [])"
proof -
  let ?w = "logger_info (''Trying DELETE for record '' @ ''991'' @ '' at '' @ ''/bibs/'' @ ''.'') w"
  have "remote (example_env serving) (sent ?w)
          (api_request (example_env serving) ''DELETE'' (''/bibs/'' @ ''991'') None)
        = Inr \<lparr>r_status_code = 204, r_content = []\<rparr>"
    by (simp add: example_env_def serving_def api_request_def)
  then show ?thesis
    unfolding delete_def Let_def truthy_dict_def
    by (simp add: call_api_answered[of "''DELETE''" _ _ _ _ "\<lparr>r_status_code = 204, r_content = []\<rparr>"]
        decode_utf8_def Let_def)
qed

text \<open>C9 at concrete inputs: an object whose retrieval returns the empty text, an object
  whose update returns the empty text, and the generic client against a platform that
  answers the DELETE with status 204 and an empty body, which the client returns as
  the empty text.\<close>

theorem success_test_by_phase_witness:
  "last (job_status_per_id (fst (snd (call_api_for_record (example_env serving)
       (every_class (scripted (Inr (Some [])) (Inr None) (Inr None)) None)
       ''991'' ''bibs'' ''bibs'' ''GET'' empty_database None quiet))))
     = \<lparr>js_alma_id = ''991'', js_action = ''GET'', js_status = ''error'', js_timestamp = 7\<rparr>
   \<and> last (job_status_per_id (fst (snd (call_api_for_record (example_env serving)
       (every_class (scripted (Inr (Some ''<?xml?>'')) (Inr None) (Inr (Some []))) None)
       ''991'' ''bibs'' ''bibs'' ''PUT'' empty_database
       (Some (\<lambda>alma_id record_data. Some ''<new/>'')) quiet))))
     = \<lparr>js_alma_id = ''991'', js_action = ''PUT'', js_status = ''error'', js_timestamp = 7\<rparr>
   \<and> last (job_status_per_id (fst (snd (call_api_for_record (example_env serving)
       (resource_classes (example_env serving) None)
       ''991'' ''bibs'' ''bibs'' ''DELETE'' empty_database None quiet))))
     = \<lparr>js_alma_id = ''991'', js_action = ''DELETE'', js_status = ''done'', js_timestamp = 7\<rparr>"
proof -
  have ts: "job_timestamp (example_env serving) = 7" by (simp add: example_env_def)
  have rid: "''991'' = last (str_split ''991'' (CHR '',''))" by simp
  have inst: "instantiate_api_class (every_class obj None) ''991'' ''bibs'' ''bibs'' quiet
                = (Inr obj, quiet)" for obj
    by (simp add: instantiate_api_class_def every_class_def)
  have inst': "instantiate_api_class (resource_classes (example_env serving) None)
                 ''991'' ''bibs'' ''bibs'' quiet
                = (Inr (generic_object (example_env serving) ''/bibs/''), quiet)"
    by (simp add: instantiate_api_class_def resource_classes_def)
  have a: "last (job_status_per_id (fst (snd (call_api_for_record (example_env serving)
       (every_class (scripted (Inr (Some [])) (Inr None) (Inr None)) None)
       ''991'' ''bibs'' ''bibs'' ''GET'' empty_database None quiet))))
     = \<lparr>js_alma_id = ''991'', js_action = ''GET'', js_status = ''error'', js_timestamp = 7\<rparr>"
    using success_test_by_phase[OF inst rid, of "scripted (Inr (Some [])) (Inr None) (Inr None)"
        "example_env serving" empty_database]
    by (simp add: ts scripted_def)
  have b: "last (job_status_per_id (fst (snd (call_api_for_record (example_env serving)
       (every_class (scripted (Inr (Some ''<?xml?>'')) (Inr None) (Inr (Some []))) None)
       ''991'' ''bibs'' ''bibs'' ''PUT'' empty_database
       (Some (\<lambda>alma_id record_data. Some ''<new/>'')) quiet))))
     = \<lparr>js_alma_id = ''991'', js_action = ''PUT'', js_status = ''error'', js_timestamp = 7\<rparr>"
    using success_test_by_phase[OF inst rid,
        of "scripted (Inr (Some ''<?xml?>'')) (Inr None) (Inr (Some []))"
        "example_env serving" empty_database]
    by (simp add: ts scripted_def)
  have del: "obj_delete (generic_object (example_env serving) ''/bibs/'') ''991'' w
       = (Inr (Some []), snd (delete (example_env serving) \<lparr>base_path = ''/bibs/''\<rparr> ''991'' None w))" for w
    using delete_served[of w] by (simp add: generic_object_def prod_eq_iff)
  have get: "obj_retrieve (generic_object (example_env serving) ''/bibs/'') ''991'' quiet
       = (Inr (Some ''<?xml?><bib/>''),
      \<lparr>logged = [(INFO, ''Trying GET for record 991 at /bibs/.''),
                 (INFO, ''GET for record \"/bibs/991\" completed.'')],
       sent = [api_request (example_env serving) ''GET'' ''/bibs/991'' None]\<rparr>)"
    by (simp add: generic_object_def retrieve_served)
  have c: "last (job_status_per_id (fst (snd (call_api_for_record (example_env serving)
       (resource_classes (example_env serving) None)
       ''991'' ''bibs'' ''bibs'' ''DELETE'' empty_database None quiet))))
     = \<lparr>js_alma_id = ''991'', js_action = ''DELETE'', js_status = ''done'', js_timestamp = 7\<rparr>"
    using success_test_by_phase[OF inst' rid, of "example_env serving" empty_database]
    by (simp add: ts get del)
  from a b c show ?thesis by blast
qed

lemma type_of_never_None: "type_of x \<noteq> NoneObject"
  by (simp add: type_of_def)

lemma call_api_for_set_resolved:
  assumes "retrieve_set_member_alma_ids m set_id w = (Inr alma_id_list, w1)"
  shows "call_api_for_set e m set_id api record_type method manipulate_record db w =
     (case call_api_for_list e m alma_id_list api record_type method manipulate_record
             (add_alma_id_to_job_status_per_id ''GET'' set_id (job_timestamp e) db) w1 of
        (Inl err, db3, w3) \<Rightarrow> (Inl err, db3, w3)
      | (Inr u, db3, w3) \<Rightarrow>
          (Inr (), commit (update_job_status ''done'' set_id ''GET'' (job_timestamp e) db3), w3))"
  unfolding call_api_for_set_def Let_def
  by (simp only: assms prod.case sum.case type_of_never_None if_False)

text \<open>
  Claim C4 says that \<^verbatim>\<open>call_api_for_set\<close> sets the row of the set to error and logs an
  error when the set resolves to an empty or absent collection. The code does not: its
  guard \<^verbatim>\<open>type(alma_id_list) is None\<close> compares a class with \<open>None\<close> and never holds.
  For an absent collection the call raises TypeError in the loop of
  \<^verbatim>\<open>call_api_for_list\<close>, with no status set to error and nothing logged; for an empty
  one it returns normally after the update to done, and the only line logged is the
  success rate.
\<close>

theorem call_api_for_set_no_members:
  assumes "retrieve_set_member_alma_ids m set_id w = (Inr alma_id_list, w1)"
  shows "(alma_id_list = None \<longrightarrow>
      call_api_for_set e m set_id api record_type method manipulate_record db w =
        (Inl TypeError,
         add_alma_id_to_job_status_per_id ''GET'' set_id (job_timestamp e) db, w1))
    \<and> (alma_id_list = Some [] \<longrightarrow>
      call_api_for_set e m set_id api record_type method manipulate_record db w =
        (Inr (),
         commit (update_job_status ''done'' set_id ''GET'' (job_timestamp e)
           (add_alma_id_to_job_status_per_id ''GET'' set_id (job_timestamp e) db)),
         log_success_rate method (job_timestamp e)
           (add_alma_id_to_job_status_per_id ''GET'' set_id (job_timestamp e) db) w1))"
  unfolding call_api_for_set_resolved[OF assms]
  by (simp add: call_api_for_list_def)

text \<open>
  Claim C5 says that the row registered for the set has the set id as its identifier
  and GET as its action. The code passes the two arguments the other way round: for a
  set without members, the last row of the table when the call returns has the
  identifier GET and the set id as its action, and the later update to done, matched on
  the identifier, leaves it new unless the set id is itself GET.
\<close>

theorem call_api_for_set_row_of_set:
  assumes "retrieve_set_member_alma_ids m set_id w = (Inr (Some []), w1)"
  shows "last (job_status_per_id (fst (snd
           (call_api_for_set e m set_id api record_type method manipulate_record db w))))
         = \<lparr>js_alma_id = ''GET'', js_action = set_id,
            js_status = (if set_id = ''GET'' then ''done'' else ''new''),
            js_timestamp = job_timestamp e\<rparr>"
proof -
  have "last (job_status_per_id
          (update_job_status ''done'' set_id ''GET'' (job_timestamp e)
             (add_alma_id_to_job_status_per_id ''GET'' set_id (job_timestamp e) db)))
        = set_status ''done'' set_id ''GET'' (job_timestamp e)
            \<lparr>js_alma_id = ''GET'', js_action = set_id, js_status = ''new'',
              js_timestamp = job_timestamp e\<rparr>"
    by (simp add: update_job_status_def add_alma_id_to_job_status_per_id_def)
  also have "\<dots> = \<lparr>js_alma_id = ''GET'', js_action = set_id,
            js_status = (if set_id = ''GET'' then ''done'' else ''new''),
            js_timestamp = job_timestamp e\<rparr>"
    by (cases "set_id = ''GET''") (auto simp: set_status_def)
  finally show ?thesis
    unfolding call_api_for_set_resolved[OF assms]
    by (simp add: call_api_for_list_def job_status_commit)
qed

text \<open>C4 at the set 4711 on the empty database, resolved first to the empty list and then
  to \<open>None\<close>.\<close>

theorem call_api_for_set_no_members_witness:
  "call_api_for_set (example_env serving)
      (every_class (scripted (Inr None) (Inr None) (Inr None)) (Some []))
      ''4711'' ''bibs'' ''bibs'' ''GET'' None empty_database quiet
   = (Inr (),
      \<lparr>job_status_per_id =
         [\<lparr>js_alma_id = ''GET'', js_action = ''4711'', js_status = ''new'', js_timestamp = 7\<rparr>],
       source_csv = [], fetched_records = [], sent_records = [], put_post_responses = [],
       commits = 1\<rparr>,
      \<lparr>logged = [(INFO, ''Success rate for GET: 0 done, 0 error, 0 new.'')], sent = []\<rparr>)
   \<and> call_api_for_set (example_env serving)
      (every_class (scripted (Inr None) (Inr None) (Inr None)) None)
      ''4711'' ''bibs'' ''bibs'' ''GET'' None empty_database quiet
   = (Inl TypeError,
      \<lparr>job_status_per_id =
         [\<lparr>js_alma_id = ''GET'', js_action = ''4711'', js_status = ''new'', js_timestamp = 7\<rparr>],
       source_csv = [], fetched_records = [], sent_records = [], put_post_responses = [],
       commits = 0\<rparr>,
      quiet)"
proof -
  have r: "retrieve_set_member_alma_ids (every_class obj members) ''4711'' quiet
             = (Inr members, quiet)" for obj members
    by (simp add: every_class_def)
  have ts: "job_timestamp (example_env serving) = 7" by (simp add: example_env_def)
  show ?thesis
    using call_api_for_set_no_members[OF r, of "Some []" "example_env serving" _ "''bibs''"
        "''bibs''" "''GET''" None empty_database]
      call_api_for_set_no_members[OF r, of None "example_env serving" _ "''bibs''"
        "''bibs''" "''GET''" None empty_database]
    by (simp add: ts empty_database_def quiet_def commit_def update_job_status_def
        add_alma_id_to_job_status_per_id_def set_status_def log_success_rate_def
        count_status_def logger_info_def digit_char_def)
qed

text \<open>C5 at the set 4711 on the empty database.\<close>

theorem call_api_for_set_row_of_set_witness:
  "last (job_status_per_id (fst (snd
     (call_api_for_set (example_env serving)
        (every_class (scripted (Inr None) (Inr None) (Inr None)) (Some []))
        ''4711'' ''bibs'' ''bibs'' ''GET'' None empty_database quiet))))
   = \<lparr>js_alma_id = ''GET'', js_action = ''4711'', js_status = ''new'', js_timestamp = 7\<rparr>"
proof -
  have r: "retrieve_set_member_alma_ids
             (every_class (scripted (Inr None) (Inr None) (Inr None)) (Some [])) ''4711'' quiet
             = (Inr (Some []), quiet)"
    by (simp add: every_class_def)
  have ts: "job_timestamp (example_env serving) = 7" by (simp add: example_env_def)
  show ?thesis
    using call_api_for_set_row_of_set[OF r, of "example_env serving" "''bibs''" "''bibs''"
        "''GET''" None empty_database]
    by (simp add: ts)
qed

section \<open>Properties of the orchestration for retrieval only\<close>

text \<open>A split is never empty, so its last segment, which the source reads with the
  index \<^verbatim>\<open>-1\<close>, always exists.\<close>

lemma str_split_not_Nil: "str_split s sep \<noteq> []"
  by (induction s) (auto split: list.splits)














section \<open>Properties of the CSV helper\<close>

lemma read_rows_without_validation: "read_rows False rows w = (rows, w)"
  by (induction rows) simp_all

text \<open>
  Claim C10: for every file path, a \<^verbatim>\<open>CsvHelper\<close> constructed without a validation
  argument is the one constructed with \<open>False\<close>: whatever the reader is, it is called
  with validation \<open>False\<close> and its rows are stored. With the reader of the
  specification, validation of the first column is therefore off and every parsed row
  of the file is kept.
\<close>

theorem CsvHelper_default_validation:
  "CsvHelper_init reader csv_path None w = CsvHelper_init reader csv_path (Some False) w
   \<and> CsvHelper_init reader csv_path None w =
       (\<lparr>csv_line_list = fst (reader csv_path False w)\<rparr>, snd (reader csv_path False w))
   \<and> CsvHelper_init (read_csv_contents fs) csv_path None w =
       (\<lparr>csv_line_list = (case fs csv_path of None \<Rightarrow> [] | Some rows \<Rightarrow> rows)\<rparr>, w)"
  by (simp add: CsvHelper_init_def read_csv_contents_def read_rows_without_validation
      split: prod.splits option.splits)

text \<open>C10 at a file of two rows whose second row has no identifier in its first column:
  by default both rows are kept, while validation would skip the second.\<close>

theorem CsvHelper_default_validation_witness:
  "CsvHelper_init (read_csv_contents example_files) ''ids.csv'' None quiet =
     (\<lparr>csv_line_list =
         [[(''MMS-ID'', ''9981093873901234''), (''Consortium-ID'', ''XY0001'')],
          [(''MMS-ID'', ''unknown''), (''Consortium-ID'', ''XY0002'')]]\<rparr>, quiet)
   \<and> fst (CsvHelper_init (read_csv_contents example_files) ''ids.csv'' (Some True) quiet) =
     \<lparr>csv_line_list =
         [[(''MMS-ID'', ''9981093873901234''), (''Consortium-ID'', ''XY0001'')]]\<rparr>"
proof -
  have a: "CsvHelper_init (read_csv_contents example_files) ''ids.csv'' None quiet =
     (\<lparr>csv_line_list =
         [[(''MMS-ID'', ''9981093873901234''), (''Consortium-ID'', ''XY0001'')],
          [(''MMS-ID'', ''unknown''), (''Consortium-ID'', ''XY0002'')]]\<rparr>, quiet)"
    using CsvHelper_default_validation[of "read_csv_contents example_files" "''ids.csv''" quiet
        example_files, THEN conjunct2, THEN conjunct2]
    by (simp add: example_files_def)
  have v1: "valid_line [(''MMS-ID'', ''9981093873901234''), (''Consortium-ID'', ''XY0001'')]"
    by (simp add: valid_line_def first_column_def subscript_def is_valid_alma_id_def
        in_range_def byte_def)
  have v2: "\<not> valid_line [(''MMS-ID'', ''unknown''), (''Consortium-ID'', ''XY0002'')]"
    by (simp add: valid_line_def first_column_def subscript_def is_valid_alma_id_def
        in_range_def byte_def)
  have b: "fst (CsvHelper_init (read_csv_contents example_files) ''ids.csv'' (Some True) quiet) =
     \<lparr>csv_line_list =
         [[(''MMS-ID'', ''9981093873901234''), (''Consortium-ID'', ''XY0001'')]]\<rparr>"
    by (simp add: CsvHelper_init_def read_csv_contents_def example_files_def v1 v2)
  from a b show ?thesis by blast
qed

end
